theory Spec2Isabelle
  imports Complex_Main "HOL-Library.Sublist" "HOL-Library.AList"
begin

section \<open>Data model of the search API\<close>

text \<open>
  Go's \<^verbatim>\<open>error\<close> values of this code base are built with \<^verbatim>\<open>fmt.Errorf\<close> or are a
  \<^verbatim>\<open>ValidationError\<close>; the only thing a caller can observe of them is the message, so an
  error is its message and \<^verbatim>\<open>nil\<close> is \<open>None\<close>.
\<close>

type_synonym error = string

text \<open>
  \<^verbatim>\<open>float64\<close>: the code compares prices (\<^verbatim>\<open><\<close>, \<^verbatim>\<open>>\<close>, \<^verbatim>\<open>==\<close>) and formats them.
  A finite float other than negative zero is the rational it denotes: \<open>Finite 0\<close> is the
  positive zero, and \<open>NegZero\<close> is the negative zero \<^verbatim>\<open>-0.0\<close>, which
  \<^verbatim>\<open>strconv.ParseFloat\<close> returns for \<^verbatim>\<open>-0\<close>. The comparisons of finite floats are the
  comparisons of the numbers they denote, so the two zeros compare equal and neither is
  less than the other; every comparison with NaN is false. Formatting tells the two zeros
  apart: \<^verbatim>\<open>%.2f\<close> prints \<^verbatim>\<open>0.00\<close> and \<^verbatim>\<open>-0.00\<close>.
\<close>

datatype float64 = Finite rat | NegZero | PosInf | NegInf | NaN

fun f64_less :: "float64 \<Rightarrow> float64 \<Rightarrow> bool" where
  "f64_less NaN y = False"
| "f64_less x NaN = False"
| "f64_less (Finite a) (Finite b) = (a < b)"
| "f64_less (Finite a) NegZero = (a < 0)"
| "f64_less NegZero (Finite b) = (0 < b)"
| "f64_less NegZero NegZero = False"
| "f64_less (Finite a) PosInf = True"
| "f64_less NegZero PosInf = True"
| "f64_less (Finite a) NegInf = False"
| "f64_less NegZero NegInf = False"
| "f64_less PosInf y = False"
| "f64_less NegInf NegInf = False"
| "f64_less NegInf y = True"

definition f64_greater :: "float64 \<Rightarrow> float64 \<Rightarrow> bool" where
  "f64_greater x y = f64_less y x"

text \<open>\<^verbatim>\<open>==\<close>: false on NaN, true on the two zeros, and otherwise the identity of the values.\<close>

definition f64_eq :: "float64 \<Rightarrow> float64 \<Rightarrow> bool" where
  "f64_eq x y =
     (x \<noteq> NaN \<and> y \<noteq> NaN
      \<and> (x = y \<or> (x = NegZero \<and> y = Finite 0) \<or> (x = Finite 0 \<and> y = NegZero)))"

text \<open>
  \<^verbatim>\<open>dto.SearchRequest\<close>. Go's \<^verbatim>\<open>int\<close> fields are integers of the machine's width; they are
  only compared here, so they are \<open>int\<close>, and the wrap-around is written out where the code
  does arithmetic on them (\<open>totalPages\<close> below).
\<close>

record SearchRequest =
  Query :: string
  City :: string
  Country :: string
  MinPrice :: float64
  MaxPrice :: float64
  Bedrooms :: int
  Bathrooms :: int
  MinGuests :: int
  Page :: int
  PageSize :: int
  SortBy :: string
  SortOrder :: string

text \<open>
  Go's \<^verbatim>\<open>==\<close> on two \<^verbatim>\<open>dto.SearchRequest\<close> values: field by field, the prices with the
  \<^verbatim>\<open>==\<close> of \<^verbatim>\<open>float64\<close>.
\<close>

definition SearchRequest_eq :: "SearchRequest \<Rightarrow> SearchRequest \<Rightarrow> bool" where
  "SearchRequest_eq a b =
     (Query a = Query b \<and> City a = City b \<and> Country a = Country b
      \<and> f64_eq (MinPrice a) (MinPrice b) \<and> f64_eq (MaxPrice a) (MaxPrice b)
      \<and> Bedrooms a = Bedrooms b \<and> Bathrooms a = Bathrooms b \<and> MinGuests a = MinGuests b
      \<and> Page a = Page b \<and> PageSize a = PageSize b
      \<and> SortBy a = SortBy b \<and> SortOrder a = SortOrder b)"

text \<open>\<^verbatim>\<open>domain.Property\<close>; the fields carry a \<open>p\<close> to keep them apart from the request's.\<close>

record Property =
  pID :: string
  pTitle :: string
  pDescription :: string
  pCity :: string
  pCountry :: string
  pPricePerNight :: float64
  pBedrooms :: int
  pBathrooms :: int
  pMaxGuests :: int
  pImages :: "string list"
  pOwnerID :: nat
  pAvailable :: bool
  pCreatedAt :: string

text \<open>\<^verbatim>\<open>dto.SearchResponse\<close>.\<close>

record SearchResponse =
  Results :: "Property list"
  TotalResults :: int
  RespPage :: int
  RespPageSize :: int
  TotalPages :: int

section \<open>Strings: decimal formatting and \<^verbatim>\<open>strings.ReplaceAll\<close>\<close>

fun showNat :: "nat \<Rightarrow> string" where
  "showNat n =
     (if n < 10 then [''0123456789'' ! n]
      else showNat (n div 10) @ [''0123456789'' ! (n mod 10)])"

declare showNat.simps [simp del]

text \<open>\<^verbatim>\<open>%d\<close> of \<^verbatim>\<open>fmt.Sprintf\<close> and \<^verbatim>\<open>strconv.Itoa\<close>.\<close>

definition itoa :: "int \<Rightarrow> string" where
  "itoa i = (if i < 0 then CHR ''-'' # showNat (nat (- i)) else showNat (nat i))"

text \<open>
  \<^verbatim>\<open>strings.ReplaceAll(s, old, new)\<close> for a non-empty \<open>old\<close>: the non-overlapping
  occurrences of \<open>old\<close>, from the left, are replaced by \<open>new\<close>. The source never passes an
  empty \<open>old\<close>, and no equation is given for it.
\<close>

fun ReplaceAll :: "string \<Rightarrow> string \<Rightarrow> string \<Rightarrow> string" where
  "ReplaceAll [] (a # old) new = []"
| "ReplaceAll (c # cs) (a # old) new =
     (if prefix (a # old) (c # cs)
      then new @ ReplaceAll (drop (length old) cs) (a # old) new
      else c # ReplaceAll cs (a # old) new)"

section \<open>The HTTP controller: defaults and validation\<close>

text \<open>\<^verbatim>\<open>applyDefaults\<close> of \<^verbatim>\<open>search_controller.go\<close>.\<close>

definition applyDefaults :: "SearchRequest \<Rightarrow> SearchRequest" where
  "applyDefaults request =
     (let r1 = (if Page request < 1 then request\<lparr>Page := 1\<rparr> else request);
          r2 = (if PageSize r1 < 1 then r1\<lparr>PageSize := 10\<rparr> else r1);
          r3 = (if SortBy r2 = [] then r2\<lparr>SortBy := ''price_per_night''\<rparr> else r2);
          r4 = (if SortOrder r3 = [] then r3\<lparr>SortOrder := ''asc''\<rparr> else r3)
      in r4)"

text \<open>
  \<^verbatim>\<open>validateSearchRequest\<close> of \<^verbatim>\<open>search_controller.go\<close>: the message of the
  \<^verbatim>\<open>ValidationError\<close>, or \<open>None\<close> for \<^verbatim>\<open>nil\<close>.
\<close>

definition validateSearchRequest :: "SearchRequest \<Rightarrow> error option" where
  "validateSearchRequest request =
     (if Page request < 1 then Some ''Page must be >= 1''
      else if PageSize request < 1 then Some ''PageSize must be > 0''
      else if PageSize request > 100 then Some ''PageSize must be <= 100''
      else if SortOrder request \<noteq> [] \<and> SortOrder request \<noteq> ''asc''
              \<and> SortOrder request \<noteq> ''desc''
        then Some (''SortOrder must be 'asc' or 'desc'' @ [CHR 0x27])
      else if f64_less (MinPrice request) (Finite 0) then Some ''MinPrice cannot be negative''
      else if f64_less (MaxPrice request) (Finite 0) then Some ''MaxPrice cannot be negative''
      else if f64_greater (MinPrice request) (Finite 0) \<and> f64_greater (MaxPrice request) (Finite 0)
              \<and> f64_greater (MinPrice request) (MaxPrice request)
        then Some ''MinPrice cannot be greater than MaxPrice''
      else if Bedrooms request < 0 then Some ''Bedrooms cannot be negative''
      else if Bathrooms request < 0 then Some ''Bathrooms cannot be negative''
      else if MinGuests request < 0 then Some ''MinGuests cannot be negative''
      else None)"

text \<open>
  What \<^verbatim>\<open>SearchController.Search\<close> does with a parsed request before it calls the
  service: \<^verbatim>\<open>applyDefaults(request)\<close>, then \<^verbatim>\<open>validateSearchRequest(request)\<close>; a message
  is answered with status 400.
\<close>

definition SearchController_validated :: "SearchRequest \<Rightarrow> error + SearchRequest" where
  "SearchController_validated request =
     (let request' = applyDefaults request
      in case validateSearchRequest request' of
           Some msg \<Rightarrow> Inl msg
         | None \<Rightarrow> Inr request')"

section \<open>The search service: validation and cache fingerprint\<close>

text \<open>
  \<^verbatim>\<open>searchService.validateSearchRequest\<close> takes a pointer: it writes the defaults into the
  request and returns an error or \<^verbatim>\<open>nil\<close>. The model returns the request as it is left
  and the error.
\<close>

definition searchService_validateSearchRequest ::
    "SearchRequest \<Rightarrow> SearchRequest \<times> error option" where
  "searchService_validateSearchRequest request0 =
     (let r1 = (if Page request0 < 1 then request0\<lparr>Page := 1\<rparr> else request0);
          r2 = (if PageSize r1 < 1 then r1\<lparr>PageSize := 10\<rparr> else r1);
          r3 = (if SortBy r2 = [] then r2\<lparr>SortBy := ''price_per_night''\<rparr> else r2);
          request = (if SortOrder r3 = [] then r3\<lparr>SortOrder := ''asc''\<rparr> else r3)
      in (request,
          if SortOrder request \<noteq> ''asc'' \<and> SortOrder request \<noteq> ''desc''
            then Some (''invalid sort_order: must be 'asc' or 'desc'' @ [CHR 0x27])
          else if f64_less (MinPrice request) (Finite 0) then Some ''min_price cannot be negative''
          else if f64_less (MaxPrice request) (Finite 0) then Some ''max_price cannot be negative''
          else if f64_greater (MinPrice request) (Finite 0) \<and> f64_greater (MaxPrice request) (Finite 0)
                  \<and> f64_greater (MinPrice request) (MaxPrice request)
            then Some ''min_price cannot be greater than max_price''
          else if Bedrooms request < 0 then Some ''bedrooms cannot be negative''
          else if Bathrooms request < 0 then Some ''bathrooms cannot be negative''
          else if MinGuests request < 0 then Some ''min_guests cannot be negative''
          else None))"

section \<open>Collaborators and libraries\<close>

text \<open>\<^verbatim>\<open>cacheData\<close> of \<^verbatim>\<open>cache_repository.go\<close>: what a cache entry holds.\<close>

record cacheData =
  Properties :: "Property list"
  Total :: int

text \<open>\<^verbatim>\<open>consumers.PropertyMessage\<close>.\<close>

record PropertyMessage =
  Action :: string
  PropertyID :: string

text \<open>
  What an HTTP call of \<^verbatim>\<open>net/http\<close> can end in, as the code tells the cases apart:
  \<^verbatim>\<open>http.NewRequest\<close> fails, \<^verbatim>\<open>httpClient.Do\<close> fails (transport error, timeout, cancelled
  context), or a response arrives with a status code, the bytes \<^verbatim>\<open>io.ReadAll\<close> read from
  its body, and the error \<^verbatim>\<open>io.ReadAll\<close> returned, if any.
\<close>

datatype http_result =
    NewRequestError error
  | DoError error
  | Response int string "error option"

text \<open>
  The requests the Solr repository sends: the query parameters of a \<^verbatim>\<open>GET /select\<close> (in the
  order the code sets them), the document posted to \<^verbatim>\<open>/update/json/docs\<close>, and the
  delete-by-id and commit commands posted to \<^verbatim>\<open>/update\<close>.
\<close>

datatype solr_request =
    Select "(string \<times> string) list"
  | AddDoc Property
  | DeleteById string
  | Commit

text \<open>The errors of \<^verbatim>\<open>gomemcache\<close>: the sentinel \<^verbatim>\<open>memcache.ErrCacheMiss\<close>, or any other.\<close>

datatype memcache_error = ErrCacheMiss | MemcacheError error

datatype memcache_request =
    McGet string
  | McSet string string int
  | McDelete string

text \<open>Every call that leaves the process, for the log the model keeps of them.\<close>

datatype net_call =
    ToSolr solr_request
  | ToMemcached memcache_request
  | ToPropertiesAPI string

text \<open>
  Everything the code calls and this repository does not define: the hash and the codecs of
  Go's standard library, and the three collaborators (Solr with a state \<open>'e\<close>, Memcached with
  a state \<open>'m\<close>, the properties API, which answers a \<^verbatim>\<open>GET\<close> of a URL, and the base URL
  the service is configured with). Each theorem below holds for every such environment.
  A codec returns \<open>Inl\<close> with the error it reports.
\<close>

record ('e, 'm) env =
  md5_hex :: "string \<Rightarrow> string"
  sprintf_2f :: "float64 \<Rightarrow> string"
  sprintf_f :: "float64 \<Rightarrow> string"
  marshal_cacheData :: "cacheData \<Rightarrow> error + string"
  unmarshal_cacheData :: "string \<Rightarrow> error + cacheData"
  unmarshal_searchResponse :: "string \<Rightarrow> error + (Property list \<times> int)"
  unmarshal_updateStatus :: "string \<Rightarrow> error + int"
  unmarshal_Property :: "string \<Rightarrow> error + Property"
  unmarshal_PropertyMessage :: "string \<Rightarrow> error + PropertyMessage"
  solrDo :: "solr_request \<Rightarrow> 'e \<Rightarrow> http_result \<times> 'e"
  memcachedGet :: "string \<Rightarrow> 'm \<Rightarrow> (memcache_error + string) \<times> 'm"
  memcachedSet :: "string \<Rightarrow> string \<Rightarrow> int \<Rightarrow> 'm \<Rightarrow> memcache_error option \<times> 'm"
  memcachedDelete :: "string \<Rightarrow> 'm \<Rightarrow> memcache_error option \<times> 'm"
  propertiesAPIURL :: string
  propertiesDo :: "string \<Rightarrow> http_result"

text \<open>
  The state the code works on: the two collaborators' states, the in-process \<^verbatim>\<open>ccache\<close>
  (each item with the time it expires at), the clock \<^verbatim>\<open>ccache\<close> reads, in seconds, and the
  log of the calls sent out, oldest first.
\<close>

record ('e, 'm) world =
  solr :: 'e
  memcached :: 'm
  localCache :: "string \<rightharpoonup> (cacheData \<times> nat)"
  clock :: nat
  netLog :: "net_call list"

text \<open>\<^verbatim>\<open>strings.Join\<close>.\<close>

fun Join :: "string list \<Rightarrow> string \<Rightarrow> string" where
  "Join [] sep = []"
| "Join [x] sep = x"
| "Join (x # y # ys) sep = x @ sep @ Join (y # ys) sep"

text \<open>\<^verbatim>\<open>searchService.generateCacheKey\<close>.\<close>

definition generateCacheKey :: "('e, 'm) env \<Rightarrow> SearchRequest \<Rightarrow> string" where
  "generateCacheKey E request =
     (let keyParts =
            [''query:'' @ Query request,
             ''city:'' @ City request,
             ''country:'' @ Country request,
             ''min_price:'' @ sprintf_2f E (MinPrice request),
             ''max_price:'' @ sprintf_2f E (MaxPrice request),
             ''bedrooms:'' @ itoa (Bedrooms request),
             ''bathrooms:'' @ itoa (Bathrooms request),
             ''min_guests:'' @ itoa (MinGuests request),
             ''page:'' @ itoa (Page request),
             ''page_size:'' @ itoa (PageSize request),
             ''sort_by:'' @ SortBy request,
             ''sort_order:'' @ SortOrder request];
          keyString = Join keyParts ''|''
      in ''search:'' @ md5_hex E keyString)"

section \<open>Machine arithmetic\<close>

text \<open>
  Go's \<^verbatim>\<open>int\<close> on the 64-bit platforms the service is built for: sums, differences and
  products wrap around in two's complement, and \<^verbatim>\<open>/\<close> truncates towards zero. Division by
  zero panics, so the quotient is an option.
\<close>

definition wrap64 :: "int \<Rightarrow> int" where
  "wrap64 x = (x + 2 ^ 63) mod 2 ^ 64 - 2 ^ 63"

definition int_add :: "int \<Rightarrow> int \<Rightarrow> int" where
  "int_add a b = wrap64 (a + b)"

definition int_sub :: "int \<Rightarrow> int \<Rightarrow> int" where
  "int_sub a b = wrap64 (a - b)"

definition int_mul :: "int \<Rightarrow> int \<Rightarrow> int" where
  "int_mul a b = wrap64 (a * b)"

definition int_quo :: "int \<Rightarrow> int \<Rightarrow> int option" where
  "int_quo a b =
     (if b = 0 then None else Some (wrap64 (sgn a * sgn b * (\<bar>a\<bar> div \<bar>b\<bar>))))"

text \<open>
  \<^verbatim>\<open>(total + pageSize - 1) / pageSize\<close>, the expression \<^verbatim>\<open>searchService.Search\<close> computes
  \<^verbatim>\<open>totalPages\<close> with on both of its paths.
\<close>

definition totalPages :: "int \<Rightarrow> int \<Rightarrow> int option" where
  "totalPages total' pageSize = int_quo (int_sub (int_add total' pageSize) 1) pageSize"

section \<open>The Solr repository: query translation\<close>

text \<open>The backslash, which a string literal cannot hold.\<close>

definition bslash :: char where
  "bslash = CHR 0x5C"

definition dquote :: char where
  "dquote = CHR 0x22"

text \<open>\<^verbatim>\<open>escapeSolrQuery\<close>: eighteen calls of \<^verbatim>\<open>strings.ReplaceAll\<close>, in the source's order.\<close>

definition escapeSolrQuery :: "string \<Rightarrow> string" where
  "escapeSolrQuery query0 =
     (let query = ReplaceAll query0 [bslash] [bslash, bslash];
          query = ReplaceAll query ''+'' [bslash, CHR ''+''];
          query = ReplaceAll query ''-'' [bslash, CHR ''-''];
          query = ReplaceAll query ''&'' [bslash, CHR ''&''];
          query = ReplaceAll query ''|'' [bslash, CHR ''|''];
          query = ReplaceAll query ''!'' [bslash, CHR ''!''];
          query = ReplaceAll query ''('' [bslash, CHR ''(''];
          query = ReplaceAll query '')'' [bslash, CHR '')''];
          query = ReplaceAll query ''{'' [bslash, CHR ''{''];
          query = ReplaceAll query ''}'' [bslash, CHR ''}''];
          query = ReplaceAll query ''['' [bslash, CHR ''[''];
          query = ReplaceAll query '']'' [bslash, CHR '']''];
          query = ReplaceAll query ''^'' [bslash, CHR ''^''];
          query = ReplaceAll query [dquote] [bslash, dquote];
          query = ReplaceAll query ''~'' [bslash, CHR ''~''];
          query = ReplaceAll query ''*'' [bslash, CHR ''*''];
          query = ReplaceAll query ''?'' [bslash, CHR ''?''];
          query = ReplaceAll query '':'' [bslash, CHR '':'']
      in query)"

text \<open>
  The parameters \<^verbatim>\<open>solrRepository.Search\<close> builds, in the order it sets them
  (\<^verbatim>\<open>url.Values.Encode\<close> then sorts them by key and percent-encodes them for the wire).
\<close>

definition searchQuery :: "SearchRequest \<Rightarrow> string" where
  "searchQuery request =
     (let queryParts =
            (if Query request \<noteq> []
             then [''(title:*'' @ escapeSolrQuery (Query request) @ ''* OR city:*''
                     @ escapeSolrQuery (Query request) @ ''* OR country:*''
                     @ escapeSolrQuery (Query request) @ ''*)'']
             else [])
      in if length queryParts = 0 then ''*:*'' else Join queryParts '' AND '')"

definition searchFilters :: "('e, 'm) env \<Rightarrow> SearchRequest \<Rightarrow> string list" where
  "searchFilters E request =
     (if f64_greater (MinPrice request) (Finite 0) \<or> f64_greater (MaxPrice request) (Finite 0)
      then (let minPrice = (if f64_eq (MinPrice request) (Finite 0) then Finite 0 else MinPrice request);
                maxPrice = (if f64_eq (MaxPrice request) (Finite 0) then Finite 999999 else MaxPrice request)
            in [''price_per_night:['' @ sprintf_f E minPrice @ '' TO '' @ sprintf_f E maxPrice @ '']''])
      else [])
     @ (if Bedrooms request > 0 then [''bedrooms:'' @ itoa (Bedrooms request)] else [])
     @ (if Bathrooms request > 0 then [''bathrooms:'' @ itoa (Bathrooms request)] else [])
     @ (if MinGuests request > 0 then [''max_guests:['' @ itoa (MinGuests request) @ '' TO *]''] else [])
     @ (if City request \<noteq> []
        then [''city:'' @ [dquote] @ escapeSolrQuery (City request) @ [dquote]] else [])
     @ (if Country request \<noteq> []
        then [''country:'' @ [dquote] @ escapeSolrQuery (Country request) @ [dquote]] else [])"

definition searchParams :: "('e, 'm) env \<Rightarrow> SearchRequest \<Rightarrow> (string \<times> string) list" where
  "searchParams E request =
     (let page = (if Page request < 1 then 1 else Page request);
          pageSize = (if PageSize request < 1 then 10 else PageSize request);
          start = int_mul (int_sub page 1) pageSize;
          sortBy = (if SortBy request = [] then ''price_per_night'' else SortBy request);
          sortOrder = (if SortOrder request = [] then ''asc'' else SortOrder request)
      in [(''q'', searchQuery request)]
         @ map (\<lambda>filter. (''fq'', filter)) (searchFilters E request)
         @ [(''start'', itoa start),
            (''rows'', itoa pageSize),
            (''sort'', sortBy @ '' '' @ sortOrder),
            (''wt'', ''json'')])"

section \<open>The two-tier cache repository\<close>

text \<open>
  \<^verbatim>\<open>cacheRepository.Get\<close>. \<^verbatim>\<open>ccache\<close> hands out an item it still holds even when the item
  has expired, and \<^verbatim>\<open>Item.Expired\<close> is true when the expiry time is before now. A result is
  \<^verbatim>\<open>(properties, total, found)\<close>, with \<open>[]\<close> for \<^verbatim>\<open>nil\<close>.
\<close>

definition cacheRepository_Get ::
    "('e, 'm) env \<Rightarrow> string \<Rightarrow> ('e, 'm) world
      \<Rightarrow> (Property list \<times> int \<times> bool) \<times> ('e, 'm) world" where
  "cacheRepository_Get E key w =
     (let item = localCache w key
      in if item \<noteq> None \<and> \<not> (snd (the item) < clock w)
         then (let data = fst (the item) in ((Properties data, Total data, True), w))
         else
           (let (reply, m') = memcachedGet E key (memcached w);
                w1 = w\<lparr>memcached := m', netLog := netLog w @ [ToMemcached (McGet key)]\<rparr>
            in case reply of
                 Inl err \<Rightarrow>
                   (if err = ErrCacheMiss then (([], 0, False), w1) else (([], 0, False), w1))
               | Inr bytes \<Rightarrow>
                   (case unmarshal_cacheData E bytes of
                      Inl err \<Rightarrow> (([], 0, False), w1)
                    | Inr data \<Rightarrow>
                        ((Properties data, Total data, True),
                         w1\<lparr>localCache := (localCache w1)(key \<mapsto> (data, clock w1 + 5 * 60))\<rparr>))))"

text \<open>\<^verbatim>\<open>cacheRepository.Set\<close>; \<open>ttl\<close> is the caller's hint, which the code does not read.\<close>

definition cacheRepository_Set ::
    "('e, 'm) env \<Rightarrow> string \<Rightarrow> Property list \<Rightarrow> int \<Rightarrow> nat \<Rightarrow> ('e, 'm) world
      \<Rightarrow> ('e, 'm) world" where
  "cacheRepository_Set E key properties total' ttl w =
     (let data = \<lparr>Properties = properties, Total = total'\<rparr>;
          w1 = w\<lparr>localCache := (localCache w)(key \<mapsto> (data, clock w + 5 * 60))\<rparr>
      in case marshal_cacheData E data of
           Inl err \<Rightarrow> w1
         | Inr jsonData \<Rightarrow>
             (let memcachedTTL = 15 * 60;
                  (err, m') = memcachedSet E key jsonData memcachedTTL (memcached w1)
              in w1\<lparr>memcached := m',
                    netLog := netLog w1 @ [ToMemcached (McSet key jsonData memcachedTTL)]\<rparr>))"

text \<open>\<^verbatim>\<open>cacheRepository.Delete\<close>.\<close>

definition cacheRepository_Delete ::
    "('e, 'm) env \<Rightarrow> string \<Rightarrow> ('e, 'm) world \<Rightarrow> ('e, 'm) world" where
  "cacheRepository_Delete E key w =
     (let w1 = w\<lparr>localCache := (localCache w)(key := None)\<rparr>;
          (err, m') = memcachedDelete E key (memcached w1)
      in w1\<lparr>memcached := m', netLog := netLog w1 @ [ToMemcached (McDelete key)]\<rparr>)"

section \<open>The Solr repository: requests and mutations\<close>

text \<open>
  One request to Solr through \<^verbatim>\<open>r.httpClient\<close>. When \<^verbatim>\<open>http.NewRequestWithContext\<close> fails
  nothing is sent, and the call is not logged.
\<close>

definition callSolr ::
    "('e, 'm) env \<Rightarrow> solr_request \<Rightarrow> ('e, 'm) world \<Rightarrow> http_result \<times> ('e, 'm) world" where
  "callSolr E rq w =
     (let (res, e') = solrDo E rq (solr w)
      in case res of
           NewRequestError err \<Rightarrow> (res, w)
         | _ \<Rightarrow> (res, w\<lparr>solr := e', netLog := netLog w @ [ToSolr rq]\<rparr>))"

text \<open>\<^verbatim>\<open>solrRepository.Search\<close>.\<close>

definition solrRepository_Search ::
    "('e, 'm) env \<Rightarrow> SearchRequest \<Rightarrow> ('e, 'm) world
      \<Rightarrow> (error + (Property list \<times> int)) \<times> ('e, 'm) world" where
  "solrRepository_Search E request w =
     (let (res, w1) = callSolr E (Select (searchParams E request)) w
      in case res of
           NewRequestError err \<Rightarrow> (Inl (''error creating request: '' @ err), w1)
         | DoError err \<Rightarrow> (Inl (''error executing request: '' @ err), w1)
         | Response status body readErr \<Rightarrow>
             (if status \<noteq> 200
              then (Inl (''solr returned status '' @ itoa status @ '': '' @ body), w1)
              else case readErr of
                     Some err \<Rightarrow> (Inl (''error reading response: '' @ err), w1)
                   | None \<Rightarrow>
                       (case unmarshal_searchResponse E body of
                          Inl err \<Rightarrow> (Inl (''error parsing response: '' @ err), w1)
                        | Inr (properties, numFound) \<Rightarrow> (Inr (properties, numFound), w1))))"

text \<open>\<^verbatim>\<open>solrRepository.commit\<close>.\<close>

definition solrRepository_commit ::
    "('e, 'm) env \<Rightarrow> ('e, 'm) world \<Rightarrow> error option \<times> ('e, 'm) world" where
  "solrRepository_commit E w =
     (let (res, w1) = callSolr E Commit w
      in case res of
           NewRequestError err \<Rightarrow> (Some (''error creating commit request: '' @ err), w1)
         | DoError err \<Rightarrow> (Some (''error executing commit: '' @ err), w1)
         | Response status body readErr \<Rightarrow>
             (if status \<noteq> 200
              then (Some (''solr commit returned status '' @ itoa status @ '': '' @ body), w1)
              else (None, w1)))"

text \<open>
  \<^verbatim>\<open>json.Marshal(property)\<close> fails on a price that is not finite, and on nothing else a
  \<^verbatim>\<open>Property\<close> can hold.
\<close>

definition marshal_Property_error :: "Property \<Rightarrow> error option" where
  "marshal_Property_error property =
     (case pPricePerNight property of
        Finite q \<Rightarrow> None
      | NegZero \<Rightarrow> None
      | PosInf \<Rightarrow> Some ''json: unsupported value: +Inf''
      | NegInf \<Rightarrow> Some ''json: unsupported value: -Inf''
      | NaN \<Rightarrow> Some ''json: unsupported value: NaN'')"

text \<open>\<^verbatim>\<open>solrRepository.IndexProperty\<close>.\<close>

definition solrRepository_IndexProperty ::
    "('e, 'm) env \<Rightarrow> Property \<Rightarrow> ('e, 'm) world \<Rightarrow> error option \<times> ('e, 'm) world" where
  "solrRepository_IndexProperty E property w =
     (case marshal_Property_error property of
        Some err \<Rightarrow> (Some (''error marshaling property: '' @ err), w)
      | None \<Rightarrow>
          (let (res, w1) = callSolr E (AddDoc property) w
           in case res of
                NewRequestError err \<Rightarrow> (Some (''error creating request: '' @ err), w1)
              | DoError err \<Rightarrow> (Some (''error executing request: '' @ err), w1)
              | Response status body readErr \<Rightarrow>
                  (if status \<noteq> 200
                   then (Some (''solr returned status '' @ itoa status @ '': '' @ body), w1)
                   else case readErr of
                          Some err \<Rightarrow> (Some (''error reading response: '' @ err), w1)
                        | None \<Rightarrow>
                            (case unmarshal_updateStatus E body of
                               Inl err \<Rightarrow> (Some (''error parsing response: '' @ err), w1)
                             | Inr st \<Rightarrow>
                                 (if st \<noteq> 0
                                  then (Some (''solr update failed with status '' @ itoa st), w1)
                                  else solrRepository_commit E w1)))))"

text \<open>\<^verbatim>\<open>solrRepository.UpdateProperty\<close>.\<close>

definition solrRepository_UpdateProperty ::
    "('e, 'm) env \<Rightarrow> Property \<Rightarrow> ('e, 'm) world \<Rightarrow> error option \<times> ('e, 'm) world" where
  "solrRepository_UpdateProperty E property w = solrRepository_IndexProperty E property w"

text \<open>
  \<^verbatim>\<open>solrRepository.DeleteProperty\<close>. \<^verbatim>\<open>json.Marshal\<close> of the delete command, a map of
  strings, cannot fail.
\<close>

definition solrRepository_DeleteProperty ::
    "('e, 'm) env \<Rightarrow> string \<Rightarrow> ('e, 'm) world \<Rightarrow> error option \<times> ('e, 'm) world" where
  "solrRepository_DeleteProperty E propertyID w =
     (let (res, w1) = callSolr E (DeleteById propertyID) w
      in case res of
           NewRequestError err \<Rightarrow> (Some (''error creating request: '' @ err), w1)
         | DoError err \<Rightarrow> (Some (''error executing request: '' @ err), w1)
         | Response status body readErr \<Rightarrow>
             (if status \<noteq> 200
              then (Some (''solr returned status '' @ itoa status @ '': '' @ body), w1)
              else case readErr of
                     Some err \<Rightarrow> (Some (''error reading response: '' @ err), w1)
                   | None \<Rightarrow>
                       (case unmarshal_updateStatus E body of
                          Inl err \<Rightarrow> (Some (''error parsing response: '' @ err), w1)
                        | Inr st \<Rightarrow>
                            (if st \<noteq> 0
                             then (Some (''solr delete failed with status '' @ itoa st), w1)
                             else solrRepository_commit E w1))))"

section \<open>The search service\<close>

text \<open>
  \<^verbatim>\<open>searchService.Search\<close>. The result is \<open>None\<close> when the code panics (the division by
  \<^verbatim>\<open>pageSize\<close>), and else the error or the response it returns.
\<close>

definition searchService_Search ::
    "('e, 'm) env \<Rightarrow> SearchRequest \<Rightarrow> ('e, 'm) world
      \<Rightarrow> (error + SearchResponse) option \<times> ('e, 'm) world" where
  "searchService_Search E request0 w =
     (let (request, verr) = searchService_validateSearchRequest request0
      in case verr of
           Some err \<Rightarrow> (Some (Inl (''invalid request: '' @ err)), w)
         | None \<Rightarrow>
             (let cacheKey = generateCacheKey E request;
                  ((properties, total', found), w1) = cacheRepository_Get E cacheKey w
              in if found
                 then (let pageSize = PageSize request
                       in case totalPages total' pageSize of
                            None \<Rightarrow> (None, w1)
                          | Some pages \<Rightarrow>
                              (Some (Inr \<lparr>Results = properties, TotalResults = total',
                                          RespPage = Page request, RespPageSize = pageSize,
                                          TotalPages = pages\<rparr>), w1))
                 else (case solrRepository_Search E request w1 of
                         (Inl err, w2) \<Rightarrow> (Some (Inl (''error searching in Solr: '' @ err)), w2)
                       | (Inr (properties, total'), w2) \<Rightarrow>
                           (let w3 = cacheRepository_Set E cacheKey properties total' (10 * 60) w2;
                                pageSize = PageSize request
                            in case totalPages total' pageSize of
                                 None \<Rightarrow> (None, w3)
                               | Some pages \<Rightarrow>
                                   (Some (Inr \<lparr>Results = properties, TotalResults = total',
                                               RespPage = Page request, RespPageSize = pageSize,
                                               TotalPages = pages\<rparr>), w3)))))"

text \<open>\<^verbatim>\<open>searchService.validateProperty\<close>.\<close>

definition validateProperty :: "Property \<Rightarrow> error option" where
  "validateProperty property =
     (if pID property = [] then Some ''property ID cannot be empty''
      else if pTitle property = [] then Some ''property title cannot be empty''
      else if pCity property = [] then Some ''property city cannot be empty''
      else if pCountry property = [] then Some ''property country cannot be empty''
      else if f64_less (pPricePerNight property) (Finite 0)
        then Some ''property price_per_night cannot be negative''
      else if pBedrooms property < 0 then Some ''property bedrooms cannot be negative''
      else if pBathrooms property < 0 then Some ''property bathrooms cannot be negative''
      else if pMaxGuests property < 0 then Some ''property max_guests cannot be negative''
      else None)"

text \<open>
  \<^verbatim>\<open>searchService.invalidateCache\<close>: the body writes one line to the log and touches
  neither cache tier.
\<close>

definition invalidateCache :: "('e, 'm) world \<Rightarrow> ('e, 'm) world" where
  "invalidateCache w = w"

text \<open>\<^verbatim>\<open>searchService.IndexProperty\<close>.\<close>

definition searchService_IndexProperty ::
    "('e, 'm) env \<Rightarrow> Property \<Rightarrow> ('e, 'm) world \<Rightarrow> error option \<times> ('e, 'm) world" where
  "searchService_IndexProperty E property w =
     (case validateProperty property of
        Some err \<Rightarrow> (Some (''invalid property: '' @ err), w)
      | None \<Rightarrow>
          (case solrRepository_IndexProperty E property w of
             (Some err, w1) \<Rightarrow> (Some (''error indexing property in Solr: '' @ err), w1)
           | (None, w1) \<Rightarrow> (None, invalidateCache w1)))"

text \<open>\<^verbatim>\<open>searchService.UpdateProperty\<close>.\<close>

definition searchService_UpdateProperty ::
    "('e, 'm) env \<Rightarrow> Property \<Rightarrow> ('e, 'm) world \<Rightarrow> error option \<times> ('e, 'm) world" where
  "searchService_UpdateProperty E property w =
     (case validateProperty property of
        Some err \<Rightarrow> (Some (''invalid property: '' @ err), w)
      | None \<Rightarrow>
          (case solrRepository_UpdateProperty E property w of
             (Some err, w1) \<Rightarrow> (Some (''error updating property in Solr: '' @ err), w1)
           | (None, w1) \<Rightarrow> (None, invalidateCache w1)))"

text \<open>\<^verbatim>\<open>searchService.DeleteProperty\<close>.\<close>

definition searchService_DeleteProperty ::
    "('e, 'm) env \<Rightarrow> string \<Rightarrow> ('e, 'm) world \<Rightarrow> error option \<times> ('e, 'm) world" where
  "searchService_DeleteProperty E propertyID w =
     (if propertyID = [] then (Some ''property ID cannot be empty'', w)
      else case solrRepository_DeleteProperty E propertyID w of
             (Some err, w1) \<Rightarrow> (Some (''error deleting property from Solr: '' @ err), w1)
           | (None, w1) \<Rightarrow> (None, invalidateCache w1))"

text \<open>
  \<^verbatim>\<open>searchService.FetchPropertyFromAPI\<close>. As for Solr, a request that could not be built
  is not sent.
\<close>

definition FetchPropertyFromAPI ::
    "('e, 'm) env \<Rightarrow> string \<Rightarrow> ('e, 'm) world \<Rightarrow> (error + Property) \<times> ('e, 'm) world" where
  "FetchPropertyFromAPI E propertyID w =
     (if propertyID = [] then (Inl ''property ID cannot be empty'', w)
      else
        (let url = propertiesAPIURL E @ ''/properties/'' @ propertyID
         in case propertiesDo E url of
              NewRequestError err \<Rightarrow> (Inl (''error creating request: '' @ err), w)
            | DoError err \<Rightarrow>
                (Inl (''error executing request: '' @ err),
                 w\<lparr>netLog := netLog w @ [ToPropertiesAPI url]\<rparr>)
            | Response status body readErr \<Rightarrow>
                (let w1 = w\<lparr>netLog := netLog w @ [ToPropertiesAPI url]\<rparr>
                 in if status \<noteq> 200
                    then (Inl (''properties API returned status '' @ itoa status @ '': '' @ body), w1)
                    else case readErr of
                           Some err \<Rightarrow> (Inl (''error reading response: '' @ err), w1)
                         | None \<Rightarrow>
                             (case unmarshal_Property E body of
                                Inl err \<Rightarrow> (Inl (''error parsing response: '' @ err), w1)
                              | Inr property \<Rightarrow> (Inr property, w1)))))"

section \<open>The HTTP controller: the search handler\<close>

text \<open>
  \<^verbatim>\<open>SearchController.Search\<close> from the parsed request on: the status code it writes, and
  the error message or the response; \<open>None\<close> when the service panicked.
\<close>

definition SearchController_Search ::
    "('e, 'm) env \<Rightarrow> SearchRequest \<Rightarrow> ('e, 'm) world
      \<Rightarrow> (int \<times> (string + SearchResponse)) option \<times> ('e, 'm) world" where
  "SearchController_Search E request0 w =
     (case SearchController_validated request0 of
        Inl msg \<Rightarrow> (Some (400, Inl msg), w)
      | Inr request \<Rightarrow>
          (case searchService_Search E request w of
             (None, w1) \<Rightarrow> (None, w1)
           | (Some (Inl err), w1) \<Rightarrow> (Some (500, Inl ''Internal server error''), w1)
           | (Some (Inr response), w1) \<Rightarrow> (Some (200, Inr response), w1)))"

section \<open>The RabbitMQ consumer\<close>

text \<open>
  The calls \<^verbatim>\<open>processMessage\<close> makes on the delivery: \<^verbatim>\<open>msg.Ack(multiple)\<close> and
  \<^verbatim>\<open>msg.Nack(multiple, requeue)\<close>.
\<close>

datatype delivery_call = Ack bool | Nack bool bool

text \<open>\<^verbatim>\<open>RabbitMQConsumer.handleCreate\<close>.\<close>

definition handleCreate ::
    "('e, 'm) env \<Rightarrow> string \<Rightarrow> ('e, 'm) world \<Rightarrow> error option \<times> ('e, 'm) world" where
  "handleCreate E propertyID w =
     (case FetchPropertyFromAPI E propertyID w of
        (Inl err, w1) \<Rightarrow> (Some (''failed to fetch property from API: '' @ err), w1)
      | (Inr property, w1) \<Rightarrow>
          (case searchService_IndexProperty E property w1 of
             (Some err, w2) \<Rightarrow> (Some (''failed to index property: '' @ err), w2)
           | (None, w2) \<Rightarrow> (None, w2)))"

text \<open>\<^verbatim>\<open>RabbitMQConsumer.handleUpdate\<close>.\<close>

definition handleUpdate ::
    "('e, 'm) env \<Rightarrow> string \<Rightarrow> ('e, 'm) world \<Rightarrow> error option \<times> ('e, 'm) world" where
  "handleUpdate E propertyID w =
     (case FetchPropertyFromAPI E propertyID w of
        (Inl err, w1) \<Rightarrow> (Some (''failed to fetch property from API: '' @ err), w1)
      | (Inr property, w1) \<Rightarrow>
          (case searchService_UpdateProperty E property w1 of
             (Some err, w2) \<Rightarrow> (Some (''failed to update property: '' @ err), w2)
           | (None, w2) \<Rightarrow> (None, w2)))"

text \<open>\<^verbatim>\<open>RabbitMQConsumer.handleDelete\<close>.\<close>

definition handleDelete ::
    "('e, 'm) env \<Rightarrow> string \<Rightarrow> ('e, 'm) world \<Rightarrow> error option \<times> ('e, 'm) world" where
  "handleDelete E propertyID w =
     (case searchService_DeleteProperty E propertyID w of
        (Some err, w1) \<Rightarrow> (Some (''failed to delete property: '' @ err), w1)
      | (None, w1) \<Rightarrow> (None, w1))"

text \<open>
  \<^verbatim>\<open>RabbitMQConsumer.processMessage\<close> on a delivery with the given body: the calls it makes
  on the delivery, in order, and the state it leaves. The 30 second deadline of the context
  shows in the environment as a failed \<^verbatim>\<open>httpClient.Do\<close>.
\<close>

definition processMessage ::
    "('e, 'm) env \<Rightarrow> string \<Rightarrow> ('e, 'm) world \<Rightarrow> delivery_call list \<times> ('e, 'm) world" where
  "processMessage E body w =
     (case unmarshal_PropertyMessage E body of
        Inl err \<Rightarrow> ([Nack False False], w)
      | Inr propertyMsg \<Rightarrow>
          (if PropertyID propertyMsg = [] then ([Nack False False], w)
           else
             (let handled =
                    (if Action propertyMsg = ''create''
                       then Some (handleCreate E (PropertyID propertyMsg) w)
                     else if Action propertyMsg = ''update''
                       then Some (handleUpdate E (PropertyID propertyMsg) w)
                     else if Action propertyMsg = ''delete''
                       then Some (handleDelete E (PropertyID propertyMsg) w)
                     else None)
              in case handled of
                   None \<Rightarrow> ([Nack False False], w)
                 | Some (err, w1) \<Rightarrow>
                     (if err \<noteq> None then ([Nack False True], w1)
                      else ([Ack False], w1)))))"

section \<open>A small environment to run the model on\<close>

text \<open>
  The theorems below hold for every environment. Their concrete instances run on this one:
  a Solr core that keeps its documents by \<^verbatim>\<open>id\<close> and shows an added or deleted document to
  queries after a commit; a Memcached that keeps what it is given; a properties API that
  knows the listing \<^verbatim>\<open>42\<close>; and codecs that are just rich enough for these. The core answers
  a query with one byte per visible document, whatever the query, so a decoded search
  result carries the count only.
\<close>

record solr_core =
  working :: "(string \<times> Property) list"
  searchable :: "(string \<times> Property) list"

definition coreDo :: "solr_request \<Rightarrow> solr_core \<Rightarrow> http_result \<times> solr_core" where
  "coreDo rq c =
     (case rq of
        Select params \<Rightarrow> (Response 200 (replicate (length (searchable c)) CHR ''d'') None, c)
      | AddDoc property \<Rightarrow>
          (Response 200 ''ok'' None, c\<lparr>working := AList.update (pID property) property (working c)\<rparr>)
      | DeleteById i \<Rightarrow> (Response 200 ''ok'' None, c\<lparr>working := AList.delete i (working c)\<rparr>)
      | Commit \<Rightarrow> (Response 200 ''ok'' None, c\<lparr>searchable := working c\<rparr>))"

definition storeGet ::
    "string \<Rightarrow> (string \<times> string) list \<Rightarrow> (memcache_error + string) \<times> (string \<times> string) list" where
  "storeGet key m = (case map_of m key of None \<Rightarrow> (Inl ErrCacheMiss, m) | Some v \<Rightarrow> (Inr v, m))"

definition storeSet ::
    "string \<Rightarrow> string \<Rightarrow> int \<Rightarrow> (string \<times> string) list
      \<Rightarrow> memcache_error option \<times> (string \<times> string) list" where
  "storeSet key v expiration m = (None, AList.update key v m)"

definition storeDelete ::
    "string \<Rightarrow> (string \<times> string) list \<Rightarrow> memcache_error option \<times> (string \<times> string) list" where
  "storeDelete key m =
     (case map_of m key of None \<Rightarrow> (Some ErrCacheMiss, m) | Some v \<Rightarrow> (None, AList.delete key m))"

definition loft :: Property where
  "loft = \<lparr>pID = ''42'', pTitle = ''Loft'', pDescription = [], pCity = ''Rome'',
           pCountry = ''Italy'', pPricePerNight = Finite 80, pBedrooms = 1, pBathrooms = 1,
           pMaxGuests = 2, pImages = [], pOwnerID = 1, pAvailable = True,
           pCreatedAt = ''2024-01-01T00:00:00Z''\<rparr>"

text \<open>
  The formatter of the environment prints the integer part of a price. Like \<^verbatim>\<open>fmt\<close>, it
  prints the sign of the negative zero: \<^verbatim>\<open>-0\<close>, where \<^verbatim>\<open>%.2f\<close> prints \<^verbatim>\<open>-0.00\<close>.
\<close>

definition showFloat :: "float64 \<Rightarrow> string" where
  "showFloat x =
     (case x of
        Finite q \<Rightarrow> itoa \<lfloor>q\<rfloor>
      | NegZero \<Rightarrow> ''-0''
      | PosInf \<Rightarrow> ''+Inf''
      | NegInf \<Rightarrow> ''-Inf''
      | NaN \<Rightarrow> ''NaN'')"

definition readMessage :: "string \<Rightarrow> error + PropertyMessage" where
  "readMessage body =
     (if CHR '' '' \<in> set body
      then Inr \<lparr>Action = takeWhile (\<lambda>c. c \<noteq> CHR '' '') body,
                PropertyID = tl (dropWhile (\<lambda>c. c \<noteq> CHR '' '') body)\<rparr>
      else Inl ''unexpected end of JSON input'')"

definition testEnv :: "(solr_core, (string \<times> string) list) env" where
  "testEnv =
     \<lparr>md5_hex = (\<lambda>s. s),
      sprintf_2f = showFloat,
      sprintf_f = showFloat,
      marshal_cacheData = (\<lambda>d. Inr (replicate (nat (Total d)) CHR ''d'')),
      unmarshal_cacheData =
        (\<lambda>s. if set s \<subseteq> {CHR ''d''} then Inr \<lparr>Properties = [], Total = int (length s)\<rparr>
             else Inl ''invalid character''),
      unmarshal_searchResponse =
        (\<lambda>s. if set s \<subseteq> {CHR ''d''} then Inr ([], int (length s)) else Inl ''invalid character''),
      unmarshal_updateStatus = (\<lambda>s. if s = ''ok'' then Inr 0 else Inl ''invalid character''),
      unmarshal_Property = (\<lambda>s. if s = ''loft'' then Inr loft else Inl ''invalid character''),
      unmarshal_PropertyMessage = readMessage,
      solrDo = coreDo,
      memcachedGet = storeGet,
      memcachedSet = storeSet,
      memcachedDelete = storeDelete,
      propertiesAPIURL = ''http://localhost:8081'',
      propertiesDo =
        (\<lambda>url. if url = ''http://localhost:8081/properties/42'' then Response 200 ''loft'' None
               else if url = ''http://localhost:8081/properties/7'' then Response 404 ''not found'' None
               else DoError ''connection refused'')\<rparr>"

definition emptyWorld :: "(solr_core, (string \<times> string) list) world" where
  "emptyWorld =
     \<lparr>solr = \<lparr>working = [], searchable = []\<rparr>, memcached = [], localCache = Map.empty,
      clock = 1000, netLog = []\<rparr>"

text \<open>The request \<^verbatim>\<open>GET /search?city=Rome&page=1&page_size=10\<close> after parsing.\<close>

definition romeRequest :: SearchRequest where
  "romeRequest =
     \<lparr>Query = [], City = ''Rome'', Country = [], MinPrice = Finite 0, MaxPrice = Finite 0,
      Bedrooms = 0, Bathrooms = 0, MinGuests = 0, Page = 1, PageSize = 10,
      SortBy = [], SortOrder = []\<rparr>"

text \<open>The request \<^verbatim>\<open>GET /search?city=Rome&min_price=-0&page=1&page_size=10\<close> after parsing.\<close>

definition negZeroRequest :: SearchRequest where
  "negZeroRequest = romeRequest\<lparr>MinPrice := NegZero\<rparr>"

text \<open>
  The world after the consumer has handled the event \<^verbatim>\<open>create\<close> for listing \<^verbatim>\<open>42\<close> on a fresh
  system.
\<close>

definition indexedWorld :: "(solr_core, (string \<times> string) list) world" where
  "indexedWorld = snd (processMessage testEnv ''create 42'' emptyWorld)"

text \<open>
  The test environment with an engine that reports \<^verbatim>\<open>numFound = 9223372036854775807\<close>, the
  largest \<^verbatim>\<open>int\<close>, for every query.
\<close>

definition overflowEnv :: "(solr_core, (string \<times> string) list) env" where
  "overflowEnv =
     testEnv\<lparr>marshal_cacheData := (\<lambda>d. Inr ''{}''),
             unmarshal_searchResponse := (\<lambda>s. Inr ([], 9223372036854775807))\<rparr>"

text \<open>The fingerprint of the request \<^verbatim>\<open>city=Rome\<close> in the test environment.\<close>

definition romeKey :: string where
  "romeKey = generateCacheKey testEnv (applyDefaults romeRequest)"

text \<open>
  Worlds for the cache: after one search \<^verbatim>\<open>city=Rome\<close> on a fresh system (both tiers hold the
  empty result); with an entry of two results in Memcached only, as another instance of the
  service would leave it; and with bytes in Memcached that are not a cache entry.
\<close>

definition cachedWorld :: "(solr_core, (string \<times> string) list) world" where
  "cachedWorld = snd (searchService_Search testEnv romeRequest emptyWorld)"

definition sharedWorld :: "(solr_core, (string \<times> string) list) world" where
  "sharedWorld = emptyWorld\<lparr>memcached := [(romeKey, ''dd'')]\<rparr>"

definition garbledWorld :: "(solr_core, (string \<times> string) list) world" where
  "garbledWorld = emptyWorld\<lparr>memcached := [(romeKey, ''<html>'')]\<rparr>"

text \<open>The test environment with a Memcached that cannot be reached.\<close>

definition downEnv :: "(solr_core, (string \<times> string) list) env" where
  "downEnv = testEnv\<lparr>memcachedGet := (\<lambda>key m. (Inl (MemcacheError ''i/o timeout''), m))\<rparr>"

text \<open>
  The world in which the search \<^verbatim>\<open>city=Rome\<close> was answered and cached on a fresh system, and
  then the event \<^verbatim>\<open>create\<close> for listing 42 was handled.
\<close>

definition staleWorld :: "(solr_core, (string \<times> string) list) world" where
  "staleWorld = snd (processMessage testEnv ''create 42'' cachedWorld)"

text \<open>
  Reading a decimal numeral back, the inverse of \<open>showNat\<close>; it serves to show that different
  status codes print differently.
\<close>

definition digitValue :: "char \<Rightarrow> nat" where
  "digitValue c = length (takeWhile (\<lambda>d. d \<noteq> c) ''0123456789'')"

definition readNat :: "string \<Rightarrow> nat" where
  "readNat s = foldl (\<lambda>a c. 10 * a + digitValue c) 0 s"

text \<open>
  The characters \<^verbatim>\<open>escapeSolrQuery\<close> names, and escaping one character at a time: what the
  chain of replacements is compared with below.
\<close>

definition escapedChars :: "char list" where
  "escapedChars = [bslash] @ ''+-&|!(){}[]^'' @ [dquote] @ ''~*?:''"

definition escapeChar :: "char \<Rightarrow> string" where
  "escapeChar c = (if c \<in> set escapedChars then [bslash, c] else [c])"

section \<open>Defaults and validation of a search request\<close>

lemma applyDefaults_fields:
  "Query (applyDefaults r) = Query r" "City (applyDefaults r) = City r"
  "Country (applyDefaults r) = Country r"
  "MinPrice (applyDefaults r) = MinPrice r" "MaxPrice (applyDefaults r) = MaxPrice r"
  "Bedrooms (applyDefaults r) = Bedrooms r" "Bathrooms (applyDefaults r) = Bathrooms r"
  "MinGuests (applyDefaults r) = MinGuests r"
  "Page (applyDefaults r) = (if Page r < 1 then 1 else Page r)"
  "PageSize (applyDefaults r) = (if PageSize r < 1 then 10 else PageSize r)"
  "SortBy (applyDefaults r) = (if SortBy r = [] then ''price_per_night'' else SortBy r)"
  "SortOrder (applyDefaults r) = (if SortOrder r = [] then ''asc'' else SortOrder r)"
  by (simp_all add: applyDefaults_def Let_def)

text \<open>
  The service writes the same defaults as the controller's \<open>applyDefaults\<close>, and checks the
  request it has written them into.
\<close>

lemma validate_unfold:
  "searchService_validateSearchRequest r =
     (let request = applyDefaults r
      in (request,
          if SortOrder request \<noteq> ''asc'' \<and> SortOrder request \<noteq> ''desc''
            then Some (''invalid sort_order: must be 'asc' or 'desc'' @ [CHR 0x27])
          else if f64_less (MinPrice request) (Finite 0) then Some ''min_price cannot be negative''
          else if f64_less (MaxPrice request) (Finite 0) then Some ''max_price cannot be negative''
          else if f64_greater (MinPrice request) (Finite 0) \<and> f64_greater (MaxPrice request) (Finite 0)
                  \<and> f64_greater (MinPrice request) (MaxPrice request)
            then Some ''min_price cannot be greater than max_price''
          else if Bedrooms request < 0 then Some ''bedrooms cannot be negative''
          else if Bathrooms request < 0 then Some ''bathrooms cannot be negative''
          else if MinGuests request < 0 then Some ''min_guests cannot be negative''
          else None))"
  by (simp only: searchService_validateSearchRequest_def applyDefaults_def Let_def)

lemma validate_defaults: "fst (searchService_validateSearchRequest r) = applyDefaults r"
  by (simp add: validate_unfold Let_def)

lemma validate_snd:
  "snd (searchService_validateSearchRequest r) =
     (if SortOrder r \<noteq> [] \<and> SortOrder r \<noteq> ''asc'' \<and> SortOrder r \<noteq> ''desc''
        then Some (''invalid sort_order: must be 'asc' or 'desc'' @ [CHR 0x27])
      else if f64_less (MinPrice r) (Finite 0) then Some ''min_price cannot be negative''
      else if f64_less (MaxPrice r) (Finite 0) then Some ''max_price cannot be negative''
      else if f64_greater (MinPrice r) (Finite 0) \<and> f64_greater (MaxPrice r) (Finite 0)
              \<and> f64_greater (MinPrice r) (MaxPrice r)
        then Some ''min_price cannot be greater than max_price''
      else if Bedrooms r < 0 then Some ''bedrooms cannot be negative''
      else if Bathrooms r < 0 then Some ''bathrooms cannot be negative''
      else if MinGuests r < 0 then Some ''min_guests cannot be negative''
      else None)"
  by (cases "SortOrder r = []") (simp_all add: validate_unfold Let_def applyDefaults_fields)

lemma validate_cong:
  assumes "applyDefaults r1 = applyDefaults r2"
  shows "searchService_validateSearchRequest r1 = searchService_validateSearchRequest r2"
  by (simp only: validate_unfold assms)

lemma applyDefaults_Page_0: "applyDefaults (r\<lparr>Page := 0\<rparr>) = applyDefaults (r\<lparr>Page := 1\<rparr>)"
  by (cases r) (simp add: applyDefaults_def Let_def)

lemma applyDefaults_PageSize_0:
  "applyDefaults (r\<lparr>PageSize := 0\<rparr>) = applyDefaults (r\<lparr>PageSize := 10\<rparr>)"
  by (cases r) (simp add: applyDefaults_def Let_def)

text \<open>What the handler's path accepts, and what the service's own validation accepts.\<close>

lemma controller_accepts_iff:
  "(\<exists>r'. SearchController_validated r = Inr r') =
     (PageSize r \<le> 100
      \<and> (SortOrder r = [] \<or> SortOrder r = ''asc'' \<or> SortOrder r = ''desc'')
      \<and> \<not> f64_less (MinPrice r) (Finite 0) \<and> \<not> f64_less (MaxPrice r) (Finite 0)
      \<and> \<not> (f64_greater (MinPrice r) (Finite 0) \<and> f64_greater (MaxPrice r) (Finite 0)
            \<and> f64_greater (MinPrice r) (MaxPrice r))
      \<and> 0 \<le> Bedrooms r \<and> 0 \<le> Bathrooms r \<and> 0 \<le> MinGuests r)"
  by (auto simp add: SearchController_validated_def validateSearchRequest_def Let_def
        applyDefaults_fields split: if_splits)

lemma service_accepts_iff:
  "(snd (searchService_validateSearchRequest r) = None) =
     ((SortOrder r = [] \<or> SortOrder r = ''asc'' \<or> SortOrder r = ''desc'')
      \<and> \<not> f64_less (MinPrice r) (Finite 0) \<and> \<not> f64_less (MaxPrice r) (Finite 0)
      \<and> \<not> (f64_greater (MinPrice r) (Finite 0) \<and> f64_greater (MaxPrice r) (Finite 0)
            \<and> f64_greater (MinPrice r) (MaxPrice r))
      \<and> 0 \<le> Bedrooms r \<and> 0 \<le> Bathrooms r \<and> 0 \<le> MinGuests r)"
  by (auto simp add: validate_snd split: if_splits)

text \<open>
  Claim C1, as amended. \<open>validateSearchRequest\<close> taken alone rejects a page below 1 and a page
  size below 1. On the path of a request, \<open>applyDefaults\<close> runs first: \<^verbatim>\<open>page=0\<close> is handled as
  \<^verbatim>\<open>page=1\<close> and \<^verbatim>\<open>page_size=0\<close> as \<^verbatim>\<open>page_size=10\<close>, so neither is rejected for that. On the
  same path \<^verbatim>\<open>page_size=101\<close>, \<^verbatim>\<open>sort_order=sideways\<close> and \<^verbatim>\<open>min_price=10, max_price=5\<close> are
  rejected, and \<^verbatim>\<open>min_price=5, max_price=10\<close> is accepted.
\<close>

theorem C1_validation_boundaries:
  "validateSearchRequest (r\<lparr>Page := 0\<rparr>) = Some ''Page must be >= 1''
   \<and> validateSearchRequest (r\<lparr>Page := 1, PageSize := 0\<rparr>) = Some ''PageSize must be > 0''
   \<and> SearchController_validated (r\<lparr>Page := 0\<rparr>) = SearchController_validated (r\<lparr>Page := 1\<rparr>)
   \<and> SearchController_validated (r\<lparr>PageSize := 0\<rparr>) = SearchController_validated (r\<lparr>PageSize := 10\<rparr>)
   \<and> SearchController_validated (r\<lparr>PageSize := 101\<rparr>) = Inl ''PageSize must be <= 100''
   \<and> SearchController_validated (r\<lparr>PageSize := 10, SortOrder := ''sideways''\<rparr>)
       = Inl (''SortOrder must be 'asc' or 'desc'' @ [CHR 0x27])
   \<and> SearchController_validated
         (r\<lparr>PageSize := 10, SortOrder := ''asc'', MinPrice := Finite 10, MaxPrice := Finite 5\<rparr>)
       = Inl ''MinPrice cannot be greater than MaxPrice''
   \<and> SearchController_validated
         (r\<lparr>PageSize := 10, SortOrder := ''asc'', MinPrice := Finite 5, MaxPrice := Finite 10,
            Bedrooms := 0, Bathrooms := 0, MinGuests := 0\<rparr>)
       = Inr (applyDefaults
               (r\<lparr>PageSize := 10, SortOrder := ''asc'', MinPrice := Finite 5, MaxPrice := Finite 10,
                  Bedrooms := 0, Bathrooms := 0, MinGuests := 0\<rparr>))"
proof (intro conjI)
  show "validateSearchRequest (r\<lparr>Page := 0\<rparr>) = Some ''Page must be >= 1''"
    by (simp add: validateSearchRequest_def)
  show "validateSearchRequest (r\<lparr>Page := 1, PageSize := 0\<rparr>) = Some ''PageSize must be > 0''"
    by (simp add: validateSearchRequest_def)
  show "SearchController_validated (r\<lparr>Page := 0\<rparr>) = SearchController_validated (r\<lparr>Page := 1\<rparr>)"
    by (simp only: SearchController_validated_def applyDefaults_Page_0)
  show "SearchController_validated (r\<lparr>PageSize := 0\<rparr>) = SearchController_validated (r\<lparr>PageSize := 10\<rparr>)"
    by (simp only: SearchController_validated_def applyDefaults_PageSize_0)
  show "SearchController_validated (r\<lparr>PageSize := 101\<rparr>) = Inl ''PageSize must be <= 100''"
    by (simp add: SearchController_validated_def validateSearchRequest_def Let_def applyDefaults_fields)
  show "SearchController_validated (r\<lparr>PageSize := 10, SortOrder := ''sideways''\<rparr>)
       = Inl (''SortOrder must be 'asc' or 'desc'' @ [CHR 0x27])"
    by (simp add: SearchController_validated_def validateSearchRequest_def Let_def applyDefaults_fields)
  show "SearchController_validated
         (r\<lparr>PageSize := 10, SortOrder := ''asc'', MinPrice := Finite 10, MaxPrice := Finite 5\<rparr>)
       = Inl ''MinPrice cannot be greater than MaxPrice''"
    by (simp add: SearchController_validated_def validateSearchRequest_def Let_def applyDefaults_fields
          f64_greater_def)
  show "SearchController_validated
         (r\<lparr>PageSize := 10, SortOrder := ''asc'', MinPrice := Finite 5, MaxPrice := Finite 10,
            Bedrooms := 0, Bathrooms := 0, MinGuests := 0\<rparr>)
       = Inr (applyDefaults
               (r\<lparr>PageSize := 10, SortOrder := ''asc'', MinPrice := Finite 5, MaxPrice := Finite 10,
                  Bedrooms := 0, Bathrooms := 0, MinGuests := 0\<rparr>))"
    by (simp add: SearchController_validated_def validateSearchRequest_def Let_def applyDefaults_fields
          f64_greater_def)
qed

text \<open>
  Claim C1 as it is written fails: the request \<^verbatim>\<open>city=Rome\<close> with \<^verbatim>\<open>page=0\<close>, and the same
  request with \<^verbatim>\<open>page_size=0\<close>, pass the handler's validation (with the defaults written in)
  and the service's.
\<close>

theorem C1_page_zero_accepted:
  "SearchController_validated (romeRequest\<lparr>Page := 0\<rparr>)
     = Inr (romeRequest\<lparr>Page := 1, SortBy := ''price_per_night'', SortOrder := ''asc''\<rparr>)
   \<and> SearchController_validated (romeRequest\<lparr>PageSize := 0\<rparr>)
     = Inr (romeRequest\<lparr>PageSize := 10, SortBy := ''price_per_night'', SortOrder := ''asc''\<rparr>)
   \<and> snd (searchService_validateSearchRequest (romeRequest\<lparr>Page := 0\<rparr>)) = None
   \<and> snd (searchService_validateSearchRequest (romeRequest\<lparr>PageSize := 0\<rparr>)) = None"
  by (simp add: SearchController_validated_def applyDefaults_def validateSearchRequest_def Let_def
        romeRequest_def f64_greater_def validate_snd)

text \<open>
  \<open>validateSearchRequest\<close> taken alone, at every request: a page below 1 is rejected, and after
  it a page size below 1 or above 100. The handler answers a rejected request with status 400
  and the validator's message.
\<close>

lemma validateSearchRequest_bounds:
  "Page r < 1 \<Longrightarrow> validateSearchRequest r = Some ''Page must be >= 1''"
  "1 \<le> Page r \<Longrightarrow> PageSize r < 1 \<Longrightarrow> validateSearchRequest r = Some ''PageSize must be > 0''"
  "1 \<le> Page r \<Longrightarrow> 100 < PageSize r \<Longrightarrow> validateSearchRequest r = Some ''PageSize must be <= 100''"
  by (simp_all add: validateSearchRequest_def)

lemma rejected_status_400:
  assumes "SearchController_validated r = Inl msg"
  shows "SearchController_Search E r w = (Some (400, Inl msg), w)"
  using assms by (simp add: SearchController_Search_def)

section \<open>The cache fingerprint\<close>

text \<open>
  Claim C4, as amended. The request \<^verbatim>\<open>searchService.Search\<close> computes the
  fingerprint from is the request with the defaults written in (page below 1 to 1, page size
  below 1 to 10, empty sort field to \<^verbatim>\<open>price_per_night\<close>, empty sort order to \<^verbatim>\<open>asc\<close>:
  \<open>applyDefaults_fields\<close>). Two requests that are identical once the defaults are written in,
  the prices the same \<^verbatim>\<open>float64\<close> values down to the sign of a zero, get the same
  fingerprint, and the whole search treats them alike; a request with page 0 and the same
  request with page 1 get the same fingerprint.
\<close>

theorem C4_fingerprint_deterministic:
  assumes "applyDefaults r1 = applyDefaults r2"
  shows "fst (searchService_validateSearchRequest r1) = applyDefaults r1
       \<and> generateCacheKey E (fst (searchService_validateSearchRequest r1))
           = generateCacheKey E (fst (searchService_validateSearchRequest r2))
       \<and> searchService_Search E r1 w = searchService_Search E r2 w
       \<and> generateCacheKey E (fst (searchService_validateSearchRequest (r\<lparr>Page := 0\<rparr>)))
           = generateCacheKey E (fst (searchService_validateSearchRequest (r\<lparr>Page := 1\<rparr>)))"
proof -
  have v: "searchService_validateSearchRequest r1 = searchService_validateSearchRequest r2"
    by (rule validate_cong [OF assms])
  have s: "searchService_Search E r1 w = searchService_Search E r2 w"
    by (simp only: searchService_Search_def v)
  show ?thesis
    using s by (simp add: validate_defaults assms applyDefaults_Page_0)
qed

lemma romeRequest_key:
  "generateCacheKey testEnv (applyDefaults romeRequest) =
    ''search:query:|city:Rome|country:|min_price:0|max_price:0|bedrooms:0|bathrooms:0|min_guests:0|page:1|page_size:10|sort_by:price_per_night|sort_order:asc''"
  by code_simp

text \<open>The request \<^verbatim>\<open>city=Rome\<close> with page 0 and with page 1, in the test environment.\<close>

theorem C4_fingerprint_witness:
  "applyDefaults (romeRequest\<lparr>Page := 0\<rparr>) = applyDefaults romeRequest
   \<and> generateCacheKey testEnv (fst (searchService_validateSearchRequest (romeRequest\<lparr>Page := 0\<rparr>)))
       = generateCacheKey testEnv (fst (searchService_validateSearchRequest romeRequest))
   \<and> generateCacheKey testEnv (fst (searchService_validateSearchRequest romeRequest))
       = ''search:query:|city:Rome|country:|min_price:0|max_price:0|bedrooms:0|bathrooms:0|min_guests:0|page:1|page_size:10|sort_by:price_per_night|sort_order:asc''"
proof -
  have h: "applyDefaults (romeRequest\<lparr>Page := 0\<rparr>) = applyDefaults romeRequest"
    by (simp add: applyDefaults_def romeRequest_def Let_def)
  show ?thesis
    using h C4_fingerprint_deterministic [OF h, of testEnv] romeRequest_key
    by (simp add: validate_defaults)
qed

text \<open>
  The fingerprint is made of the printed prices, and \<^verbatim>\<open>%.2f\<close> prints the sign of a zero. A
  minimum price of \<^verbatim>\<open>-0\<close> and one of \<^verbatim>\<open>0\<close> get the same fingerprint only where the formatter
  prints the two zeros alike or the digest maps two different key strings to one value,
  whatever the rest of the request.
\<close>

lemma zero_sign_key:
  assumes "generateCacheKey E (r\<lparr>MinPrice := NegZero\<rparr>)
         = generateCacheKey E (r\<lparr>MinPrice := Finite 0\<rparr>)"
  shows "sprintf_2f E NegZero = sprintf_2f E (Finite 0)
       \<or> (\<exists>s t. s \<noteq> t \<and> md5_hex E s = md5_hex E t)"
proof (cases "sprintf_2f E NegZero = sprintf_2f E (Finite 0)")
  case True
  then show ?thesis by simp
next
  case False
  let ?k = "\<lambda>x. Join [''query:'' @ Query r, ''city:'' @ City r, ''country:'' @ Country r,
               ''min_price:'' @ sprintf_2f E x, ''max_price:'' @ sprintf_2f E (MaxPrice r),
               ''bedrooms:'' @ itoa (Bedrooms r), ''bathrooms:'' @ itoa (Bathrooms r),
               ''min_guests:'' @ itoa (MinGuests r), ''page:'' @ itoa (Page r),
               ''page_size:'' @ itoa (PageSize r), ''sort_by:'' @ SortBy r,
               ''sort_order:'' @ SortOrder r] ''|''"
  have d: "?k NegZero \<noteq> ?k (Finite 0)"
    using False by simp
  have e: "md5_hex E (?k NegZero) = md5_hex E (?k (Finite 0))"
    using assms by (simp add: generateCacheKey_def Let_def)
  from d e show ?thesis by blast
qed

text \<open>
  Claim C4 as it is written fails on the sign of a zero. The requests \<^verbatim>\<open>city=Rome&min_price=-0\<close>
  and \<^verbatim>\<open>city=Rome&min_price=0\<close> have equal fields once the defaults are written in (\<^verbatim>\<open>-0.0 == 0.0\<close>),
  both pass the handler's validation and the service's, and both send the same query to Solr;
  their fingerprints differ.
\<close>

theorem C4_negative_zero_key:
  "SearchRequest_eq (applyDefaults negZeroRequest) (applyDefaults romeRequest)
   \<and> SearchController_validated negZeroRequest = Inr (applyDefaults negZeroRequest)
   \<and> searchService_validateSearchRequest negZeroRequest = (applyDefaults negZeroRequest, None)
   \<and> searchService_validateSearchRequest romeRequest = (applyDefaults romeRequest, None)
   \<and> searchParams testEnv (applyDefaults negZeroRequest) = searchParams testEnv (applyDefaults romeRequest)
   \<and> generateCacheKey testEnv (fst (searchService_validateSearchRequest negZeroRequest)) =
        ''search:query:|city:Rome|country:|min_price:-0|max_price:0|bedrooms:0|bathrooms:0|min_guests:0|page:1|page_size:10|sort_by:price_per_night|sort_order:asc''
   \<and> generateCacheKey testEnv (fst (searchService_validateSearchRequest romeRequest)) =
        ''search:query:|city:Rome|country:|min_price:0|max_price:0|bedrooms:0|bathrooms:0|min_guests:0|page:1|page_size:10|sort_by:price_per_night|sort_order:asc''
   \<and> generateCacheKey testEnv (fst (searchService_validateSearchRequest negZeroRequest))
       \<noteq> generateCacheKey testEnv (fst (searchService_validateSearchRequest romeRequest))"
  by code_simp

section \<open>The page size limit\<close>

lemma big_request_log:
  "netLog (snd (searchService_Search testEnv (romeRequest\<lparr>PageSize := 101\<rparr>) emptyWorld)) =
     [ToMemcached (McGet ''search:query:|city:Rome|country:|min_price:0|max_price:0|bedrooms:0|bathrooms:0|min_guests:0|page:1|page_size:101|sort_by:price_per_night|sort_order:asc''),
      ToSolr (Select [(''q'', ''*:*''), (''fq'', ''city:'' @ [dquote] @ ''Rome'' @ [dquote]),
                      (''start'', ''0''), (''rows'', ''101''),
                      (''sort'', ''price_per_night asc''), (''wt'', ''json'')]),
      ToMemcached (McSet ''search:query:|city:Rome|country:|min_price:0|max_price:0|bedrooms:0|bathrooms:0|min_guests:0|page:1|page_size:101|sort_by:price_per_night|sort_order:asc'' [] 900)]"
  by code_simp

lemma big_request_answer:
  "fst (searchService_Search testEnv (romeRequest\<lparr>PageSize := 101\<rparr>) emptyWorld) =
     Some (Inr \<lparr>Results = [], TotalResults = 0, RespPage = 1, RespPageSize = 101, TotalPages = 0\<rparr>)"
  by code_simp

lemma rows_param:
  "(''rows'', itoa (PageSize (applyDefaults r))) \<in> set (searchParams E (applyDefaults r))"
  by (simp add: searchParams_def Let_def applyDefaults_fields)

text \<open>
  Claim C10. The service's validation gives the same verdict whatever the page size, so it
  never rejects a request for its page size; a page size of 101 stays in the request the
  service works on and reaches the cache key and the \<^verbatim>\<open>rows\<close> parameter sent to Solr (shown
  on a run in the test environment). The handler of the controller is what answers such a
  request with status 400, before the service is called.
\<close>

theorem C10_service_has_no_page_size_limit:
  "snd (searchService_validateSearchRequest (r\<lparr>PageSize := n\<rparr>))
     = snd (searchService_validateSearchRequest r)
   \<and> PageSize (fst (searchService_validateSearchRequest (r\<lparr>PageSize := 101\<rparr>))) = 101
   \<and> (''rows'', ''101'')
        \<in> set (searchParams E (fst (searchService_validateSearchRequest (r\<lparr>PageSize := 101\<rparr>))))
   \<and> SearchController_Search E (r\<lparr>PageSize := 101\<rparr>) w
       = (Some (400, Inl ''PageSize must be <= 100''), w)
   \<and> fst (searchService_Search testEnv (romeRequest\<lparr>PageSize := 101\<rparr>) emptyWorld)
       = Some (Inr \<lparr>Results = [], TotalResults = 0, RespPage = 1, RespPageSize = 101,
                    TotalPages = 0\<rparr>)
   \<and> netLog (snd (searchService_Search testEnv (romeRequest\<lparr>PageSize := 101\<rparr>) emptyWorld))
       = [ToMemcached (McGet ''search:query:|city:Rome|country:|min_price:0|max_price:0|bedrooms:0|bathrooms:0|min_guests:0|page:1|page_size:101|sort_by:price_per_night|sort_order:asc''),
          ToSolr (Select [(''q'', ''*:*''), (''fq'', ''city:'' @ [dquote] @ ''Rome'' @ [dquote]),
                          (''start'', ''0''), (''rows'', ''101''),
                          (''sort'', ''price_per_night asc''), (''wt'', ''json'')]),
          ToMemcached (McSet ''search:query:|city:Rome|country:|min_price:0|max_price:0|bedrooms:0|bathrooms:0|min_guests:0|page:1|page_size:101|sort_by:price_per_night|sort_order:asc'' [] 900)]"
proof (intro conjI)
  show "snd (searchService_validateSearchRequest (r\<lparr>PageSize := n\<rparr>))
     = snd (searchService_validateSearchRequest r)"
    by (simp add: validate_snd)
  show "PageSize (fst (searchService_validateSearchRequest (r\<lparr>PageSize := 101\<rparr>))) = 101"
    by (simp add: validate_defaults applyDefaults_fields)
  have "itoa 101 = ''101''" by code_simp
  then show "(''rows'', ''101'')
        \<in> set (searchParams E (fst (searchService_validateSearchRequest (r\<lparr>PageSize := 101\<rparr>))))"
    using rows_param [of "r\<lparr>PageSize := 101\<rparr>" E] by (simp add: validate_defaults applyDefaults_fields)
  have "SearchController_validated (r\<lparr>PageSize := 101\<rparr>) = Inl ''PageSize must be <= 100''"
    by (simp add: SearchController_validated_def validateSearchRequest_def Let_def applyDefaults_fields)
  then show "SearchController_Search E (r\<lparr>PageSize := 101\<rparr>) w
       = (Some (400, Inl ''PageSize must be <= 100''), w)"
    by (simp add: SearchController_Search_def)
  show "fst (searchService_Search testEnv (romeRequest\<lparr>PageSize := 101\<rparr>) emptyWorld)
       = Some (Inr \<lparr>Results = [], TotalResults = 0, RespPage = 1, RespPageSize = 101,
                    TotalPages = 0\<rparr>)"
    by (rule big_request_answer)
  show "netLog (snd (searchService_Search testEnv (romeRequest\<lparr>PageSize := 101\<rparr>) emptyWorld))
       = [ToMemcached (McGet ''search:query:|city:Rome|country:|min_price:0|max_price:0|bedrooms:0|bathrooms:0|min_guests:0|page:1|page_size:101|sort_by:price_per_night|sort_order:asc''),
          ToSolr (Select [(''q'', ''*:*''), (''fq'', ''city:'' @ [dquote] @ ''Rome'' @ [dquote]),
                          (''start'', ''0''), (''rows'', ''101''),
                          (''sort'', ''price_per_night asc''), (''wt'', ''json'')]),
          ToMemcached (McSet ''search:query:|city:Rome|country:|min_price:0|max_price:0|bedrooms:0|bathrooms:0|min_guests:0|page:1|page_size:101|sort_by:price_per_night|sort_order:asc'' [] 900)]"
    by (rule big_request_log)
qed

section \<open>Pagination arithmetic\<close>

lemma ceiling_div:
  fixes a b :: int
  assumes "1 \<le> b"
  shows "(a + b - 1) div b = \<lceil>real_of_int a / real_of_int b\<rceil>"
proof -
  have b0: "b \<noteq> 0" "0 < b" using assms by simp_all
  have c: "\<lceil>real_of_int a / real_of_int b\<rceil> = - (- a div b)"
    by (rule ceiling_divide_eq_div)
  have m: "- a div b = (if a mod b = 0 then - (a div b) else - (a div b) - 1)"
    using b0 by (simp add: zdiv_zminus1_eq_if)
  have "a + b - 1 = (a mod b + b - 1) + b * (a div b)" by simp
  then have "(a + b - 1) div b = ((a mod b + b - 1) + b * (a div b)) div b"
    by (rule arg_cong)
  also have "\<dots> = a div b + (a mod b + b - 1) div b"
    by (rule div_mult_self2 [OF b0(1)])
  finally have d: "(a + b - 1) div b = a div b + (a mod b + b - 1) div b" .
  show ?thesis
  proof (cases "a mod b = 0")
    case True
    then have "(a mod b + b - 1) div b = 0" using b0 by simp
    with d m c True show ?thesis by simp
  next
    case False
    have r: "0 \<le> a mod b" "a mod b < b" using b0 by simp_all
    with False have r1: "0 \<le> a mod b - 1" "a mod b - 1 < b" by simp_all
    have "a mod b + b - 1 = (a mod b - 1) + b" by simp
    then have "(a mod b + b - 1) div b = ((a mod b - 1) + b) div b"
      by (rule arg_cong)
    also have "\<dots> = (a mod b - 1) div b + 1"
      by (rule div_add_self2 [OF b0(1)])
    also have "(a mod b - 1) div b = 0" using r1 by (simp add: div_pos_pos_trivial)
    finally have "(a mod b + b - 1) div b = 1" by simp
    with d m c False show ?thesis by simp
  qed
qed


lemma wrap64_id: "- (2 ^ 63) \<le> x \<Longrightarrow> x < 2 ^ 63 \<Longrightarrow> wrap64 x = x"
  by (simp add: wrap64_def)

lemma wrap_sub_gen:
  fixes x y k m :: int
  shows "((x + k) mod m - k - y + k) mod m = (x - y + k) mod m"
proof -
  have "((x + k) mod m - k - y + k) mod m = ((x + k) mod m - y) mod m" by simp
  also have "\<dots> = (x + k - y) mod m" by (rule mod_diff_left_eq)
  also have "x + k - y = x - y + k" by simp
  finally show ?thesis .
qed

lemma wrap64_sub: "wrap64 (wrap64 x - y) = wrap64 (x - y)"
  unfolding wrap64_def using wrap_sub_gen [of x "2 ^ 63" "2 ^ 64" y] by simp

lemma totalPages_ceiling:
  assumes "0 \<le> t" "1 \<le> ps" "t + ps - 1 < 2 ^ 63"
  shows "totalPages t ps = Some \<lceil>real_of_int t / real_of_int ps\<rceil>"
proof -
  let ?y = "t + ps - 1"
  have y: "0 \<le> ?y" "?y < 2 ^ 63" using assms by simp_all
  have "int_sub (int_add t ps) 1 = wrap64 ?y"
    by (simp only: int_sub_def int_add_def wrap64_sub)
  also have "\<dots> = ?y" using y by (simp add: wrap64_id)
  finally have n: "int_sub (int_add t ps) 1 = ?y" .
  have q: "0 \<le> ?y div ps" "?y div ps \<le> ?y"
    using y assms zdiv_mono2 [of ?y 1 ps] by (simp_all add: pos_imp_zdiv_nonneg_iff)
  have sg: "sgn ?y * sgn ps * (\<bar>?y\<bar> div \<bar>ps\<bar>) = ?y div ps"
    using y assms by (cases "?y = 0") (simp_all add: sgn_if)
  have ps0: "ps \<noteq> 0" using assms by simp
  have "int_quo ?y ps = Some (wrap64 (sgn ?y * sgn ps * (\<bar>?y\<bar> div \<bar>ps\<bar>)))"
    by (simp only: int_quo_def ps0 if_False)
  also have "\<dots> = Some (wrap64 (?y div ps))" by (simp only: sg)
  also have "wrap64 (?y div ps) = ?y div ps"
    using q y by (intro wrap64_id) simp_all
  also have "?y div ps = \<lceil>real_of_int t / real_of_int ps\<rceil>"
    by (rule ceiling_div [OF assms(2)])
  finally show ?thesis by (simp add: totalPages_def n)
qed

lemma totalPages_None_iff: "(totalPages t ps = None) = (ps = 0)"
  by (simp add: totalPages_def int_quo_def)

lemma validate_pair:
  "\<exists>verr. searchService_validateSearchRequest r = (applyDefaults r, verr)"
  by (simp add: validate_unfold Let_def)

lemma Search_no_panic: "fst (searchService_Search E r w) \<noteq> None"
proof -
  obtain verr where v: "searchService_validateSearchRequest r = (applyDefaults r, verr)"
    using validate_pair by blast
  have p: "PageSize (applyDefaults r) \<noteq> 0" by (simp add: applyDefaults_fields)
  show ?thesis
    unfolding searchService_Search_def v using p
    by (auto simp: Let_def totalPages_None_iff split: option.splits prod.splits sum.splits)
qed

lemma Search_response:
  assumes "searchService_Search E r w = (Some (Inr resp), w')"
  shows "RespPage resp = Page (applyDefaults r) \<and> RespPageSize resp = PageSize (applyDefaults r)
       \<and> totalPages (TotalResults resp) (RespPageSize resp) = Some (TotalPages resp)"
proof -
  obtain verr where v: "searchService_validateSearchRequest r = (applyDefaults r, verr)"
    using validate_pair by blast
  show ?thesis
    using assms unfolding searchService_Search_def v
    by (auto simp: Let_def split: option.splits prod.splits sum.splits if_splits)
qed

text \<open>
  Claim C8, as amended. Every search that succeeds, from the cache or from the engine, returns
  a page size of at least 1 and \<open>total_pages = ceil(total_results / page_size)\<close>, provided that
  the total is not negative and \<open>total_results + page_size - 1\<close> does not exceed the largest
  \<^verbatim>\<open>int\<close>, \<open>2^63 - 1\<close>. (The search never panics on the division: \<open>Search_no_panic\<close>.)
\<close>

theorem C8_total_pages:
  assumes "searchService_Search E r w = (Some (Inr resp), w')"
    and "0 \<le> TotalResults resp"
    and "TotalResults resp + RespPageSize resp - 1 < 2 ^ 63"
  shows "1 \<le> RespPageSize resp
       \<and> TotalPages resp = \<lceil>real_of_int (TotalResults resp) / real_of_int (RespPageSize resp)\<rceil>"
proof -
  have s: "RespPageSize resp = PageSize (applyDefaults r)"
      "totalPages (TotalResults resp) (RespPageSize resp) = Some (TotalPages resp)"
    using Search_response [OF assms(1)] by blast+
  have p: "1 \<le> RespPageSize resp" by (simp add: s(1) applyDefaults_fields)
  from totalPages_ceiling [OF assms(2) p assms(3)] s(2) p show ?thesis by simp
qed

text \<open>
  The search \<^verbatim>\<open>city=Rome\<close> after listing 42 has been indexed: one result, page size 10, one
  page.
\<close>

theorem C8_total_pages_witness:
  "fst (searchService_Search testEnv romeRequest indexedWorld)
     = Some (Inr \<lparr>Results = [], TotalResults = 1, RespPage = 1, RespPageSize = 10, TotalPages = 1\<rparr>)
   \<and> (1 :: int) = \<lceil>real_of_int 1 / real_of_int 10\<rceil>"
proof -
  let ?resp = "\<lparr>Results = [], TotalResults = 1, RespPage = 1, RespPageSize = 10, TotalPages = 1\<rparr>"
  have f: "fst (searchService_Search testEnv romeRequest indexedWorld) = Some (Inr ?resp)"
    by code_simp
  then have e: "searchService_Search testEnv romeRequest indexedWorld
      = (Some (Inr ?resp), snd (searchService_Search testEnv romeRequest indexedWorld))"
    by (simp add: prod_eq_iff)
  show ?thesis using f C8_total_pages [OF e] by simp
qed

text \<open>
  Claim C8 as it is written fails where the sum overflows: with a total of \<open>2^63 - 1\<close> and a
  page size of 2 the search returns a negative number of pages, and the ceiling is \<open>2^62\<close>.
\<close>

theorem C8_total_pages_overflow:
  "fst (searchService_Search overflowEnv (romeRequest\<lparr>PageSize := 2\<rparr>) emptyWorld)
     = Some (Inr \<lparr>Results = [], TotalResults = 9223372036854775807, RespPage = 1,
                  RespPageSize = 2, TotalPages = - 4611686018427387904\<rparr>)
   \<and> \<lceil>real_of_int 9223372036854775807 / real_of_int 2\<rceil> = (4611686018427387904 :: int)"
proof
  show "fst (searchService_Search overflowEnv (romeRequest\<lparr>PageSize := 2\<rparr>) emptyWorld)
     = Some (Inr \<lparr>Results = [], TotalResults = 9223372036854775807, RespPage = 1,
                  RespPageSize = 2, TotalPages = - 4611686018427387904\<rparr>)"
    by code_simp
  show "\<lceil>real_of_int 9223372036854775807 / real_of_int 2\<rceil> = (4611686018427387904 :: int)"
    by simp
qed

text \<open>
  On the path of a request the handler has bounded the page size by 100, so the number of
  pages is the ceiling for every total from 0 to \<open>2^63 - 100\<close>.
\<close>

lemma http_total_pages:
  assumes "SearchController_Search E r w = (Some (200, Inr resp), w')"
    and "0 \<le> TotalResults resp"
    and "TotalResults resp \<le> 2 ^ 63 - 100"
  shows "1 \<le> RespPageSize resp \<and> RespPageSize resp \<le> 100
       \<and> TotalPages resp = \<lceil>real_of_int (TotalResults resp) / real_of_int (RespPageSize resp)\<rceil>"
proof -
  from assms(1) have a: "SearchController_validated r = Inr (applyDefaults r)"
    by (auto simp: SearchController_Search_def SearchController_validated_def Let_def
          split: sum.splits option.splits prod.splits)
  then have "validateSearchRequest (applyDefaults r) = None"
    by (simp add: SearchController_validated_def Let_def split: option.splits)
  then have le: "PageSize (applyDefaults r) \<le> 100"
    by (simp add: validateSearchRequest_def split: if_splits)
  from assms(1) a have s: "searchService_Search E (applyDefaults r) w = (Some (Inr resp), w')"
    by (auto simp: SearchController_Search_def split: sum.splits option.splits prod.splits)
  have f: "RespPageSize resp = PageSize (applyDefaults (applyDefaults r))"
      "totalPages (TotalResults resp) (RespPageSize resp) = Some (TotalPages resp)"
    using Search_response [OF s] by blast+
  have g: "PageSize (applyDefaults (applyDefaults r)) = PageSize (applyDefaults r)"
      "1 \<le> PageSize (applyDefaults r)"
    by (simp_all add: applyDefaults_fields)
  have p: "1 \<le> RespPageSize resp" "RespPageSize resp \<le> 100" using f(1) g le by simp_all
  have b: "TotalResults resp + RespPageSize resp - 1 < 2 ^ 63" using assms(3) p(2) by simp
  from totalPages_ceiling [OF assms(2) p(1) b] f(2) p show ?thesis by simp
qed

section \<open>The cache tier\<close>

text \<open>
  Claim C7. \<^verbatim>\<open>cacheRepository.Get\<close> looks in the in-process cache first. An entry there that
  has not expired is returned with \<open>found = true\<close> and the state is left as it was: nothing is
  sent to Memcached. Without such an entry (none, or an expired one) Memcached is asked. A
  value from Memcached that parses is stored in the in-process cache for five minutes and
  returned with \<open>found = true\<close>. A miss, any other error, and a value that does not parse give
  \<open>found = false\<close> and no error.
\<close>

theorem C7_cache_get:
  "(localCache w key = Some (data, expires) \<and> \<not> expires < clock w \<longrightarrow>
      cacheRepository_Get E key w = ((Properties data, Total data, True), w))
 \<and> ((\<forall>d e. localCache w key = Some (d, e) \<longrightarrow> e < clock w)
      \<and> memcachedGet E key (memcached w) = (Inr bytes, m')
      \<and> unmarshal_cacheData E bytes = Inr data \<longrightarrow>
      cacheRepository_Get E key w =
        ((Properties data, Total data, True),
         w\<lparr>memcached := m', netLog := netLog w @ [ToMemcached (McGet key)],
           localCache := (localCache w)(key \<mapsto> (data, clock w + 5 * 60))\<rparr>))
 \<and> ((\<forall>d e. localCache w key = Some (d, e) \<longrightarrow> e < clock w)
      \<and> memcachedGet E key (memcached w) = (Inl err, m') \<longrightarrow>
      cacheRepository_Get E key w =
        (([], 0, False), w\<lparr>memcached := m', netLog := netLog w @ [ToMemcached (McGet key)]\<rparr>))
 \<and> ((\<forall>d e. localCache w key = Some (d, e) \<longrightarrow> e < clock w)
      \<and> memcachedGet E key (memcached w) = (Inr bytes, m')
      \<and> unmarshal_cacheData E bytes = Inl perr \<longrightarrow>
      cacheRepository_Get E key w =
        (([], 0, False), w\<lparr>memcached := m', netLog := netLog w @ [ToMemcached (McGet key)]\<rparr>))"
  by (auto simp: cacheRepository_Get_def Let_def split: option.splits prod.splits sum.splits)

text \<open>
  In the test environment: a hit in the in-process cache, a hit in Memcached only, a miss in
  both tiers, an unreachable Memcached, and bytes that do not parse.
\<close>

theorem C7_cache_get_witness:
  "cacheRepository_Get testEnv romeKey cachedWorld = (([], 0, True), cachedWorld)
 \<and> fst (cacheRepository_Get testEnv romeKey sharedWorld) = ([], 2, True)
 \<and> netLog (snd (cacheRepository_Get testEnv romeKey sharedWorld)) = [ToMemcached (McGet romeKey)]
 \<and> localCache (snd (cacheRepository_Get testEnv romeKey sharedWorld)) romeKey
       = Some (\<lparr>Properties = [], Total = 2\<rparr>, 1300)
 \<and> fst (cacheRepository_Get testEnv romeKey emptyWorld) = ([], 0, False)
 \<and> fst (cacheRepository_Get downEnv romeKey sharedWorld) = ([], 0, False)
 \<and> fst (cacheRepository_Get testEnv romeKey garbledWorld) = ([], 0, False)"
proof -
  have l1: "localCache cachedWorld romeKey = Some (\<lparr>Properties = [], Total = 0\<rparr>, 1300)"
    by code_simp
  have c1: "\<not> (1300 :: nat) < clock cachedWorld" by code_simp
  have hit: "cacheRepository_Get testEnv romeKey cachedWorld = (([], 0, True), cachedWorld)"
    using C7_cache_get [where w = cachedWorld and key = romeKey and E = testEnv
        and data = "\<lparr>Properties = [], Total = 0\<rparr>" and expires = 1300] l1 c1
    by simp
  have l2: "\<forall>d e. localCache sharedWorld romeKey = Some (d, e) \<longrightarrow> e < clock sharedWorld"
    by (simp add: sharedWorld_def emptyWorld_def)
  have g2: "memcachedGet testEnv romeKey (memcached sharedWorld) = (Inr ''dd'', [(romeKey, ''dd'')])"
    by (simp add: sharedWorld_def testEnv_def storeGet_def)
  have u2: "unmarshal_cacheData testEnv ''dd'' = Inr \<lparr>Properties = [], Total = 2\<rparr>"
    by (simp add: testEnv_def)
  have shared: "cacheRepository_Get testEnv romeKey sharedWorld =
      (([], 2, True),
       sharedWorld\<lparr>memcached := [(romeKey, ''dd'')],
         netLog := netLog sharedWorld @ [ToMemcached (McGet romeKey)],
         localCache := (localCache sharedWorld)(romeKey \<mapsto> (\<lparr>Properties = [], Total = 2\<rparr>, clock sharedWorld + 5 * 60))\<rparr>)"
    using C7_cache_get [where w = sharedWorld and key = romeKey and E = testEnv
        and data = "\<lparr>Properties = [], Total = 2\<rparr>" and bytes = "''dd''"
        and m' = "[(romeKey, ''dd'')]"] l2 g2 u2
    by simp
  have l3: "\<forall>d e. localCache emptyWorld romeKey = Some (d, e) \<longrightarrow> e < clock emptyWorld"
    by (simp add: emptyWorld_def)
  have g3: "memcachedGet testEnv romeKey (memcached emptyWorld) = (Inl ErrCacheMiss, [])"
    by (simp add: emptyWorld_def testEnv_def storeGet_def)
  have miss: "fst (cacheRepository_Get testEnv romeKey emptyWorld) = ([], 0, False)"
    using C7_cache_get [where w = emptyWorld and key = romeKey and E = testEnv
        and err = ErrCacheMiss and m' = "[]"] l3 g3
    by simp
  have g4: "memcachedGet downEnv romeKey (memcached sharedWorld)
      = (Inl (MemcacheError ''i/o timeout''), memcached sharedWorld)"
    by (simp add: downEnv_def)
  have down: "fst (cacheRepository_Get downEnv romeKey sharedWorld) = ([], 0, False)"
    using C7_cache_get [where w = sharedWorld and key = romeKey and E = downEnv
        and err = "MemcacheError ''i/o timeout''" and m' = "memcached sharedWorld"] l2 g4
    by simp
  have l5: "\<forall>d e. localCache garbledWorld romeKey = Some (d, e) \<longrightarrow> e < clock garbledWorld"
    by (simp add: garbledWorld_def emptyWorld_def)
  have g5: "memcachedGet testEnv romeKey (memcached garbledWorld)
      = (Inr ''<html>'', [(romeKey, ''<html>'')])"
    by (simp add: garbledWorld_def testEnv_def storeGet_def)
  have u5: "unmarshal_cacheData testEnv ''<html>'' = Inl ''invalid character''"
    by (simp add: testEnv_def)
  have garbled: "fst (cacheRepository_Get testEnv romeKey garbledWorld) = ([], 0, False)"
    using C7_cache_get [where w = garbledWorld and key = romeKey and E = testEnv
        and bytes = "''<html>''" and m' = "[(romeKey, ''<html>'')]"
        and perr = "''invalid character''"] l5 g5 u5
    by simp
  have n0: "netLog sharedWorld = []" "clock sharedWorld = 1000"
    by (simp_all add: sharedWorld_def emptyWorld_def)
  have s1: "fst (cacheRepository_Get testEnv romeKey sharedWorld) = ([], 2, True)"
    by (simp add: shared)
  have s2: "netLog (snd (cacheRepository_Get testEnv romeKey sharedWorld))
      = [ToMemcached (McGet romeKey)]"
    by (simp add: shared n0)
  have s3: "localCache (snd (cacheRepository_Get testEnv romeKey sharedWorld)) romeKey
       = Some (\<lparr>Properties = [], Total = 2\<rparr>, 1300)"
    by (simp add: shared n0)
  show ?thesis
    using hit s1 s2 s3 miss down garbled by simp
qed

section \<open>The consumer's acknowledgements\<close>

text \<open>
  Claim C3. \<^verbatim>\<open>processMessage\<close> makes exactly one call on the delivery. A body that does not
  parse, an empty \<^verbatim>\<open>property_id\<close> and an action other than \<^verbatim>\<open>create\<close>, \<^verbatim>\<open>update\<close>, \<^verbatim>\<open>delete\<close>
  are nacked without requeue, and nothing else is done. Otherwise the message is nacked with
  requeue when the fetch of the listing or the mutation of the index returns an error, and
  acked when both succeed (for \<^verbatim>\<open>delete\<close> there is no fetch).
\<close>

theorem C3_consumer_disposition:
  "length (fst (processMessage E body w)) = 1
 \<and> (unmarshal_PropertyMessage E body = Inl perr \<longrightarrow>
      processMessage E body w = ([Nack False False], w))
 \<and> (unmarshal_PropertyMessage E body = Inr m \<and> PropertyID m = [] \<longrightarrow>
      processMessage E body w = ([Nack False False], w))
 \<and> (unmarshal_PropertyMessage E body = Inr m \<and> PropertyID m \<noteq> []
      \<and> Action m \<noteq> ''create'' \<and> Action m \<noteq> ''update'' \<and> Action m \<noteq> ''delete'' \<longrightarrow>
      processMessage E body w = ([Nack False False], w))
 \<and> (unmarshal_PropertyMessage E body = Inr m \<and> PropertyID m \<noteq> [] \<and> Action m = ''create'' \<longrightarrow>
      (case FetchPropertyFromAPI E (PropertyID m) w of
         (Inl e, w1) \<Rightarrow> processMessage E body w = ([Nack False True], w1)
       | (Inr property, w1) \<Rightarrow>
           (case searchService_IndexProperty E property w1 of
              (Some e, w2) \<Rightarrow> processMessage E body w = ([Nack False True], w2)
            | (None, w2) \<Rightarrow> processMessage E body w = ([Ack False], w2))))
 \<and> (unmarshal_PropertyMessage E body = Inr m \<and> PropertyID m \<noteq> [] \<and> Action m = ''update'' \<longrightarrow>
      (case FetchPropertyFromAPI E (PropertyID m) w of
         (Inl e, w1) \<Rightarrow> processMessage E body w = ([Nack False True], w1)
       | (Inr property, w1) \<Rightarrow>
           (case searchService_UpdateProperty E property w1 of
              (Some e, w2) \<Rightarrow> processMessage E body w = ([Nack False True], w2)
            | (None, w2) \<Rightarrow> processMessage E body w = ([Ack False], w2))))
 \<and> (unmarshal_PropertyMessage E body = Inr m \<and> PropertyID m \<noteq> [] \<and> Action m = ''delete'' \<longrightarrow>
      (case searchService_DeleteProperty E (PropertyID m) w of
         (Some e, w1) \<Rightarrow> processMessage E body w = ([Nack False True], w1)
       | (None, w1) \<Rightarrow> processMessage E body w = ([Ack False], w1)))"
proof (intro conjI impI)
  show "length (fst (processMessage E body w)) = 1"
    by (simp add: processMessage_def Let_def split: sum.splits option.splits prod.splits)
next
  assume "unmarshal_PropertyMessage E body = Inl perr"
  then show "processMessage E body w = ([Nack False False], w)"
    by (simp add: processMessage_def)
next
  assume "unmarshal_PropertyMessage E body = Inr m \<and> PropertyID m = []"
  then show "processMessage E body w = ([Nack False False], w)"
    by (simp add: processMessage_def)
next
  assume "unmarshal_PropertyMessage E body = Inr m \<and> PropertyID m \<noteq> []
      \<and> Action m \<noteq> ''create'' \<and> Action m \<noteq> ''update'' \<and> Action m \<noteq> ''delete''"
  then show "processMessage E body w = ([Nack False False], w)"
    by (simp add: processMessage_def)
next
  assume "unmarshal_PropertyMessage E body = Inr m \<and> PropertyID m \<noteq> [] \<and> Action m = ''create''"
  then show "case FetchPropertyFromAPI E (PropertyID m) w of
         (Inl e, w1) \<Rightarrow> processMessage E body w = ([Nack False True], w1)
       | (Inr property, w1) \<Rightarrow>
           (case searchService_IndexProperty E property w1 of
              (Some e, w2) \<Rightarrow> processMessage E body w = ([Nack False True], w2)
            | (None, w2) \<Rightarrow> processMessage E body w = ([Ack False], w2))"
    by (simp add: processMessage_def handleCreate_def split: sum.splits option.splits prod.splits)
next
  assume "unmarshal_PropertyMessage E body = Inr m \<and> PropertyID m \<noteq> [] \<and> Action m = ''update''"
  then show "case FetchPropertyFromAPI E (PropertyID m) w of
         (Inl e, w1) \<Rightarrow> processMessage E body w = ([Nack False True], w1)
       | (Inr property, w1) \<Rightarrow>
           (case searchService_UpdateProperty E property w1 of
              (Some e, w2) \<Rightarrow> processMessage E body w = ([Nack False True], w2)
            | (None, w2) \<Rightarrow> processMessage E body w = ([Ack False], w2))"
    by (simp add: processMessage_def handleUpdate_def split: sum.splits option.splits prod.splits)
next
  assume "unmarshal_PropertyMessage E body = Inr m \<and> PropertyID m \<noteq> [] \<and> Action m = ''delete''"
  then show "case searchService_DeleteProperty E (PropertyID m) w of
         (Some e, w1) \<Rightarrow> processMessage E body w = ([Nack False True], w1)
       | (None, w1) \<Rightarrow> processMessage E body w = ([Ack False], w1)"
    by (simp add: processMessage_def handleDelete_def split: sum.splits option.splits prod.splits)
qed

text \<open>In the test environment, one message for each outcome.\<close>

theorem C3_consumer_disposition_witness:
  "processMessage testEnv ''garbage'' emptyWorld = ([Nack False False], emptyWorld)
 \<and> processMessage testEnv ''create '' emptyWorld = ([Nack False False], emptyWorld)
 \<and> processMessage testEnv ''rename 42'' emptyWorld = ([Nack False False], emptyWorld)
 \<and> fst (processMessage testEnv ''create 7'' emptyWorld) = [Nack False True]
 \<and> fst (processMessage testEnv ''update 9'' emptyWorld) = [Nack False True]
 \<and> fst (processMessage testEnv ''create 42'' emptyWorld) = [Ack False]
 \<and> fst (processMessage testEnv ''update 42'' indexedWorld) = [Ack False]
 \<and> fst (processMessage testEnv ''delete 42'' indexedWorld) = [Ack False]"
proof -
  have p1: "unmarshal_PropertyMessage testEnv ''garbage'' = Inl ''unexpected end of JSON input''"
    by (simp add: testEnv_def readMessage_def)
  have p2: "unmarshal_PropertyMessage testEnv ''create '' = Inr \<lparr>Action = ''create'', PropertyID = []\<rparr>"
    by (simp add: testEnv_def readMessage_def)
  have p3: "unmarshal_PropertyMessage testEnv ''rename 42''
      = Inr \<lparr>Action = ''rename'', PropertyID = ''42''\<rparr>"
    by (simp add: testEnv_def readMessage_def)
  have a: "processMessage testEnv ''garbage'' emptyWorld = ([Nack False False], emptyWorld)"
    using C3_consumer_disposition [where E = testEnv and body = "''garbage''" and w = emptyWorld
        and perr = "''unexpected end of JSON input''"] p1
    by simp
  have b: "processMessage testEnv ''create '' emptyWorld = ([Nack False False], emptyWorld)"
    using C3_consumer_disposition [where E = testEnv and body = "''create ''" and w = emptyWorld
        and m = "\<lparr>Action = ''create'', PropertyID = []\<rparr>"] p2
    by simp
  have c: "processMessage testEnv ''rename 42'' emptyWorld = ([Nack False False], emptyWorld)"
    using C3_consumer_disposition [where E = testEnv and body = "''rename 42''" and w = emptyWorld
        and m = "\<lparr>Action = ''rename'', PropertyID = ''42''\<rparr>"] p3
    by simp
  have d: "fst (processMessage testEnv ''create 7'' emptyWorld) = [Nack False True]"
    by code_simp
  have e: "fst (processMessage testEnv ''update 9'' emptyWorld) = [Nack False True]"
    by code_simp
  have f: "fst (processMessage testEnv ''create 42'' emptyWorld) = [Ack False]"
    by code_simp
  have g: "fst (processMessage testEnv ''update 42'' indexedWorld) = [Ack False]"
    by code_simp
  have h: "fst (processMessage testEnv ''delete 42'' indexedWorld) = [Ack False]"
    by code_simp
  show ?thesis using a b c d e f g h by simp
qed

section \<open>Index mutations\<close>

lemma callSolr_log:
  "callSolr E rq w = (res, w1) \<Longrightarrow>
     (\<exists>err. res = NewRequestError err) \<and> w1 = w
   \<or> (\<forall>err. res \<noteq> NewRequestError err) \<and> netLog w1 = netLog w @ [ToSolr rq]"
  by (auto simp: callSolr_def Let_def split: prod.splits http_result.splits)

lemma commit_ok_log:
  "solrRepository_commit E w = (None, w') \<Longrightarrow> netLog w' = netLog w @ [ToSolr Commit]"
  by (auto simp: solrRepository_commit_def callSolr_def Let_def
      split: prod.splits http_result.splits if_splits)

lemma index_ok_log:
  assumes "solrRepository_IndexProperty E p w = (None, w')"
  shows "netLog w' = netLog w @ [ToSolr (AddDoc p), ToSolr Commit]"
  using assms
  by (auto simp: solrRepository_IndexProperty_def callSolr_def Let_def
      split: prod.splits http_result.splits if_splits option.splits sum.splits
      dest!: commit_ok_log)

lemma service_update_index:
  "snd (searchService_UpdateProperty E p w) = snd (searchService_IndexProperty E p w)
   \<and> (fst (searchService_UpdateProperty E p w) = None) = (fst (searchService_IndexProperty E p w) = None)"
  by (auto simp: searchService_UpdateProperty_def searchService_IndexProperty_def
        solrRepository_UpdateProperty_def split: option.splits prod.splits)

lemma core_commit:
  "solrDo E = coreDo \<Longrightarrow>
     solr (snd (solrRepository_commit E w)) = (solr w)\<lparr>searchable := working (solr w)\<rparr>"
  by (simp add: solrRepository_commit_def callSolr_def coreDo_def Let_def)

lemma core_index:
  "solrDo E = coreDo \<Longrightarrow>
     solr (snd (solrRepository_IndexProperty E p w)) =
       (case marshal_Property_error p of
          Some e \<Rightarrow> solr w
        | None \<Rightarrow>
            (if unmarshal_updateStatus E ''ok'' = Inr 0
             then (solr w)\<lparr>working := AList.update (pID p) p (working (solr w)),
                          searchable := AList.update (pID p) p (working (solr w))\<rparr>
             else (solr w)\<lparr>working := AList.update (pID p) p (working (solr w))\<rparr>))"
  by (auto simp: solrRepository_IndexProperty_def callSolr_def coreDo_def Let_def core_commit
      split: option.splits sum.splits)

lemma core_index_twice:
  assumes "solrDo E = coreDo"
  shows "solr (snd (solrRepository_IndexProperty E p (snd (solrRepository_IndexProperty E p w))))
       = solr (snd (solrRepository_IndexProperty E p w))"
  by (simp add: core_index [OF assms] split: option.splits)


lemma service_index_solr:
  "solr (snd (searchService_IndexProperty E p w)) =
     (case validateProperty p of
        Some e \<Rightarrow> solr w
      | None \<Rightarrow> solr (snd (solrRepository_IndexProperty E p w)))"
  by (simp add: searchService_IndexProperty_def invalidateCache_def
      split: option.splits prod.splits)

lemma service_index_twice:
  assumes "solrDo E = coreDo"
  shows "solr (snd (searchService_IndexProperty E p (snd (searchService_IndexProperty E p w))))
       = solr (snd (searchService_IndexProperty E p w))"
proof (cases "validateProperty p")
  case None
  then show ?thesis
    by (simp add: service_index_solr core_index [OF assms] split: option.splits)
next
  case (Some e)
  then show ?thesis by (simp add: service_index_solr)
qed

text \<open>
  Claim C9. \<^verbatim>\<open>UpdateProperty\<close> of the repository is \<^verbatim>\<open>IndexProperty\<close>, and the two operations of
  the service leave the same state and fail or succeed together. A successful
  \<^verbatim>\<open>IndexProperty\<close> has sent the whole listing and then a commit, and nothing else. Against
  an engine that keeps its documents by \<^verbatim>\<open>id\<close> (the core of the test environment, with any
  codecs), indexing or updating the same listing a second time leaves the index as the
  first time left it.
\<close>

theorem C9_update_is_index:
  "solrRepository_UpdateProperty E p w = solrRepository_IndexProperty E p w
 \<and> snd (searchService_UpdateProperty E p w) = snd (searchService_IndexProperty E p w)
 \<and> (fst (searchService_UpdateProperty E p w) = None)
     = (fst (searchService_IndexProperty E p w) = None)
 \<and> (solrRepository_IndexProperty E p w = (None, w') \<longrightarrow>
      netLog w' = netLog w @ [ToSolr (AddDoc p), ToSolr Commit])
 \<and> (solrDo E = coreDo \<longrightarrow>
      solr (snd (searchService_IndexProperty E p (snd (searchService_IndexProperty E p w))))
        = solr (snd (searchService_IndexProperty E p w))
      \<and> solr (snd (searchService_UpdateProperty E p (snd (searchService_IndexProperty E p w))))
        = solr (snd (searchService_IndexProperty E p w)))"
  using service_update_index [of E p w] service_update_index [of E p "snd (searchService_IndexProperty E p w)"]
    index_ok_log [of E p w w'] service_index_twice [of E p w]
  by (simp add: solrRepository_UpdateProperty_def)

text \<open>Listing 42 indexed once, twice, and indexed then updated, in the test environment.\<close>

theorem C9_update_is_index_witness:
  "solrDo testEnv = coreDo
 \<and> fst (solrRepository_IndexProperty testEnv loft emptyWorld) = None
 \<and> netLog (snd (solrRepository_IndexProperty testEnv loft emptyWorld))
     = [ToSolr (AddDoc loft), ToSolr Commit]
 \<and> solr (snd (searchService_IndexProperty testEnv loft emptyWorld))
     = \<lparr>working = [(''42'', loft)], searchable = [(''42'', loft)]\<rparr>
 \<and> solr (snd (searchService_IndexProperty testEnv loft
                (snd (searchService_IndexProperty testEnv loft emptyWorld))))
     = \<lparr>working = [(''42'', loft)], searchable = [(''42'', loft)]\<rparr>
 \<and> solr (snd (searchService_UpdateProperty testEnv loft
                (snd (searchService_IndexProperty testEnv loft emptyWorld))))
     = \<lparr>working = [(''42'', loft)], searchable = [(''42'', loft)]\<rparr>"
proof -
  have e: "solrDo testEnv = coreDo" by (simp add: testEnv_def)
  have f: "fst (solrRepository_IndexProperty testEnv loft emptyWorld) = None" by code_simp
  then have i: "solrRepository_IndexProperty testEnv loft emptyWorld
      = (None, snd (solrRepository_IndexProperty testEnv loft emptyWorld))"
    by (simp add: prod_eq_iff)
  have n: "netLog emptyWorld = []" by (simp add: emptyWorld_def)
  have o: "solr (snd (searchService_IndexProperty testEnv loft emptyWorld))
     = \<lparr>working = [(''42'', loft)], searchable = [(''42'', loft)]\<rparr>"
    by code_simp
  show ?thesis
    using e f o n i
      C9_update_is_index [where E = testEnv and p = loft and w = emptyWorld
        and w' = "snd (solrRepository_IndexProperty testEnv loft emptyWorld)"]
    by simp
qed

section \<open>Cache invalidation\<close>

text \<open>
  No request to Solr and no mutation of the service touches either cache tier:
  \<open>invalidateCache\<close>, which each mutation ends with, changes nothing.
\<close>

lemma callSolr_keeps_cache:
  "localCache (snd (callSolr E rq w)) = localCache w
   \<and> memcached (snd (callSolr E rq w)) = memcached w
   \<and> clock (snd (callSolr E rq w)) = clock w"
  by (simp add: callSolr_def Let_def split: prod.splits http_result.splits)

lemma commit_keeps_cache:
  "localCache (snd (solrRepository_commit E w)) = localCache w
   \<and> memcached (snd (solrRepository_commit E w)) = memcached w
   \<and> clock (snd (solrRepository_commit E w)) = clock w"
  using callSolr_keeps_cache [of E Commit w]
  by (auto simp: solrRepository_commit_def Let_def split: prod.splits http_result.splits)

lemma repo_index_keeps_cache:
  "localCache (snd (solrRepository_IndexProperty E p w)) = localCache w
   \<and> memcached (snd (solrRepository_IndexProperty E p w)) = memcached w
   \<and> clock (snd (solrRepository_IndexProperty E p w)) = clock w"
  using callSolr_keeps_cache [of E "AddDoc p" w]
    commit_keeps_cache [of E "snd (callSolr E (AddDoc p) w)"]
  by (auto simp: solrRepository_IndexProperty_def Let_def
      split: prod.splits http_result.splits option.splits sum.splits)

lemma repo_delete_keeps_cache:
  "localCache (snd (solrRepository_DeleteProperty E i w)) = localCache w
   \<and> memcached (snd (solrRepository_DeleteProperty E i w)) = memcached w
   \<and> clock (snd (solrRepository_DeleteProperty E i w)) = clock w"
  using callSolr_keeps_cache [of E "DeleteById i" w]
    commit_keeps_cache [of E "snd (callSolr E (DeleteById i) w)"]
  by (auto simp: solrRepository_DeleteProperty_def Let_def
      split: prod.splits http_result.splits option.splits sum.splits)

lemma mutations_keep_cache:
  "localCache (snd (searchService_IndexProperty E p w)) = localCache w
   \<and> memcached (snd (searchService_IndexProperty E p w)) = memcached w
   \<and> localCache (snd (searchService_UpdateProperty E p w)) = localCache w
   \<and> memcached (snd (searchService_UpdateProperty E p w)) = memcached w
   \<and> localCache (snd (searchService_DeleteProperty E i w)) = localCache w
   \<and> memcached (snd (searchService_DeleteProperty E i w)) = memcached w"
  using repo_index_keeps_cache [of E p w] repo_delete_keeps_cache [of E i w]
  by (auto simp: searchService_IndexProperty_def searchService_UpdateProperty_def
      searchService_DeleteProperty_def solrRepository_UpdateProperty_def invalidateCache_def
      split: option.splits prod.splits)

text \<open>
  Claim C2 fails on the code. The search \<^verbatim>\<open>city=Rome\<close> is answered with no result and cached;
  the event \<^verbatim>\<open>create\<close> for listing 42 is then handled and acknowledged, and the listing is
  visible in the engine. The same search still returns the cached answer with no result,
  and sends nothing to the engine; with the caches emptied it returns one result.
\<close>

theorem C2_cached_result_survives_mutation:
  "fst (searchService_Search testEnv romeRequest cachedWorld)
     = Some (Inr \<lparr>Results = [], TotalResults = 0, RespPage = 1, RespPageSize = 10, TotalPages = 0\<rparr>)
 \<and> fst (processMessage testEnv ''create 42'' cachedWorld) = [Ack False]
 \<and> map fst (searchable (solr staleWorld)) = [''42'']
 \<and> fst (searchService_Search testEnv romeRequest staleWorld)
     = Some (Inr \<lparr>Results = [], TotalResults = 0, RespPage = 1, RespPageSize = 10, TotalPages = 0\<rparr>)
 \<and> netLog (snd (searchService_Search testEnv romeRequest staleWorld)) = netLog staleWorld
 \<and> fst (searchService_Search testEnv romeRequest (staleWorld\<lparr>localCache := Map.empty, memcached := []\<rparr>))
     = Some (Inr \<lparr>Results = [], TotalResults = 1, RespPage = 1, RespPageSize = 10, TotalPages = 1\<rparr>)"
proof (intro conjI)
  show "fst (searchService_Search testEnv romeRequest cachedWorld)
     = Some (Inr \<lparr>Results = [], TotalResults = 0, RespPage = 1, RespPageSize = 10, TotalPages = 0\<rparr>)"
    by code_simp
  show "fst (processMessage testEnv ''create 42'' cachedWorld) = [Ack False]"
    by code_simp
  show "map fst (searchable (solr staleWorld)) = [''42'']"
    by code_simp
  show "fst (searchService_Search testEnv romeRequest staleWorld)
     = Some (Inr \<lparr>Results = [], TotalResults = 0, RespPage = 1, RespPageSize = 10, TotalPages = 0\<rparr>)"
    by code_simp
  show "netLog (snd (searchService_Search testEnv romeRequest staleWorld)) = netLog staleWorld"
    by code_simp
  show "fst (searchService_Search testEnv romeRequest (staleWorld\<lparr>localCache := Map.empty, memcached := []\<rparr>))
     = Some (Inr \<lparr>Results = [], TotalResults = 1, RespPage = 1, RespPageSize = 10, TotalPages = 1\<rparr>)"
    by code_simp
qed

section \<open>Fetching the canonical listing\<close>

text \<open>Decimal numerals: \<open>showNat\<close> and \<open>itoa\<close> are injective and print no colon.\<close>

lemma digit_cases: "d < 10 \<Longrightarrow> d \<in> {0, 1, 2, 3, 4, 5, 6, 7, 8, 9 :: nat}"
  by auto

lemma digit_value: "d < 10 \<Longrightarrow> digitValue (''0123456789'' ! d) = d"
  using digit_cases [of d] by (auto simp: digitValue_def)

lemma digit_in: "d < 10 \<Longrightarrow> ''0123456789'' ! d \<in> set ''0123456789''"
  by (rule nth_mem) simp

lemma showNat_digits: "set (showNat n) \<subseteq> set ''0123456789''"
proof (induction n rule: showNat.induct)
  case (1 n)
  show ?case
  proof (cases "n < 10")
    case True
    then show ?thesis using digit_in [of n] by (subst showNat.simps) simp
  next
    case False
    then show ?thesis
      using 1 digit_in [of "n mod 10"] by (subst showNat.simps) simp
  qed
qed

lemma readNat_showNat: "readNat (showNat n) = n"
proof (induction n rule: showNat.induct)
  case (1 n)
  show ?case
  proof (cases "n < 10")
    case True
    then show ?thesis
      by (subst showNat.simps) (simp add: readNat_def digit_value)
  next
    case False
    then have "readNat (showNat (n div 10)) = n div 10" using 1 by simp
    then show ?thesis
      using False by (subst showNat.simps) (simp add: readNat_def digit_value)
  qed
qed

lemma showNat_inj: "showNat a = showNat b \<Longrightarrow> a = b"
  by (metis readNat_showNat)

lemma showNat_nonempty: "showNat n \<noteq> []"
  by (subst showNat.simps) simp

lemma showNat_no: "c \<notin> set ''0123456789'' \<Longrightarrow> c \<notin> set (showNat n)"
  using showNat_digits [of n] by blast

lemma itoa_inj: "itoa a = itoa b \<Longrightarrow> a = b"
proof -
  assume e: "itoa a = itoa b"
  have m: "CHR ''-'' \<notin> set (showNat n)" for n by (rule showNat_no) simp
  show "a = b"
  proof (cases "a < 0"; cases "b < 0")
    assume "a < 0" "b < 0"
    with e have "nat (- a) = nat (- b)" by (simp add: itoa_def showNat_inj)
    with \<open>a < 0\<close> \<open>b < 0\<close> show ?thesis by simp
  next
    assume "a < 0" "\<not> b < 0"
    with e have "CHR ''-'' # showNat (nat (- a)) = showNat (nat b)" by (simp add: itoa_def)
    then have "CHR ''-'' \<in> set (showNat (nat b))" by (metis list.set_intros(1))
    with m show ?thesis by simp
  next
    assume "\<not> a < 0" "b < 0"
    with e have "showNat (nat a) = CHR ''-'' # showNat (nat (- b))" by (simp add: itoa_def)
    then have "CHR ''-'' \<in> set (showNat (nat a))" by (metis list.set_intros(1))
    with m show ?thesis by simp
  next
    assume "\<not> a < 0" "\<not> b < 0"
    with e have "nat a = nat b" by (simp add: itoa_def showNat_inj)
    with \<open>\<not> a < 0\<close> \<open>\<not> b < 0\<close> show ?thesis by simp
  qed
qed

lemma itoa_no_colon: "CHR '':'' \<notin> set (itoa a)"
proof -
  have "CHR '':'' \<notin> set (showNat n)" for n by (rule showNat_no) simp
  then show ?thesis by (simp add: itoa_def)
qed

lemma takeWhile_upto: "c \<notin> set u \<Longrightarrow> takeWhile (\<lambda>x. x \<noteq> c) (u @ c # z) = u"
  by (induction u) auto

lemma status_text_inj:
  assumes "itoa a @ '': '' @ x = itoa b @ '': '' @ y"
  shows "a = b"
proof -
  let ?P = "\<lambda>c. c \<noteq> CHR '':''"
  have t: "takeWhile ?P (itoa n @ '': '' @ z) = itoa n" for n z
    using takeWhile_upto [OF itoa_no_colon, of n "'' '' @ z"] by simp
  from assms have "takeWhile ?P (itoa a @ '': '' @ x) = takeWhile ?P (itoa b @ '': '' @ y)"
    by simp
  then have "itoa a = itoa b" by (simp only: t)
  then show ?thesis by (rule itoa_inj)
qed


text \<open>What \<^verbatim>\<open>FetchPropertyFromAPI\<close> returns, by the answer of the properties API.\<close>

lemma fetch_result:
  "propertyID \<noteq> [] \<Longrightarrow>
   fst (FetchPropertyFromAPI E propertyID w) =
     (case propertiesDo E (propertiesAPIURL E @ ''/properties/'' @ propertyID) of
        NewRequestError err \<Rightarrow> Inl (''error creating request: '' @ err)
      | DoError err \<Rightarrow> Inl (''error executing request: '' @ err)
      | Response status body readErr \<Rightarrow>
          (if status \<noteq> 200
           then Inl (''properties API returned status '' @ itoa status @ '': '' @ body)
           else case readErr of
                  Some err \<Rightarrow> Inl (''error reading response: '' @ err)
                | None \<Rightarrow>
                    (case unmarshal_Property E body of
                       Inl err \<Rightarrow> Inl (''error parsing response: '' @ err)
                     | Inr property \<Rightarrow> Inr property)))"
  by (simp add: FetchPropertyFromAPI_def Let_def
      split: http_result.splits option.splits sum.splits)

lemma itoa_404: "itoa 404 = ''404''"
  by code_simp

text \<open>
  Claim C6. When the properties API answers the fetch of a listing with status 404, the error
  \<^verbatim>\<open>FetchPropertyFromAPI\<close> returns says so, and it differs from what is returned after any
  other answer: a request that could not be built or sent, any other status, a body that
  could not be read or parsed, and a listing. What tells the outcomes apart is the message
  of the error, which carries the status code.
\<close>

theorem C6_not_found_distinguishable:
  assumes "propertyID \<noteq> []"
    and "propertiesDo E (propertiesAPIURL E @ ''/properties/'' @ propertyID) = Response 404 body rd"
    and "\<forall>b r. propertiesDo E' (propertiesAPIURL E' @ ''/properties/'' @ propertyID') \<noteq> Response 404 b r"
  shows "fst (FetchPropertyFromAPI E propertyID w)
           = Inl (''properties API returned status 404: '' @ body)
       \<and> fst (FetchPropertyFromAPI E propertyID w) \<noteq> fst (FetchPropertyFromAPI E' propertyID' w')"
proof -
  let ?nf = "''properties API returned status 404: '' @ body"
  have a: "fst (FetchPropertyFromAPI E propertyID w) = Inl ?nf"
    using assms(2) by (simp add: fetch_result [OF assms(1)] itoa_404)
  have b: "fst (FetchPropertyFromAPI E' propertyID' w') \<noteq> Inl ?nf"
  proof (cases "propertyID' = []")
    case True
    then show ?thesis by (simp add: FetchPropertyFromAPI_def)
  next
    case False
    show ?thesis
    proof (cases "propertiesDo E' (propertiesAPIURL E' @ ''/properties/'' @ propertyID')")
      case (NewRequestError err)
      then show ?thesis by (simp add: fetch_result [OF False])
    next
      case (DoError err)
      then show ?thesis by (simp add: fetch_result [OF False])
    next
      case (Response st b r)
      with assms(3) have n: "st \<noteq> 404" by auto
      have d: "itoa st @ '': '' @ b \<noteq> itoa 404 @ '': '' @ body"
        using status_text_inj [of st b 404 body] n by blast
      show ?thesis
        using Response d
        by (simp add: fetch_result [OF False] itoa_404 split: option.splits sum.splits)
    qed
  qed
  from a b show ?thesis by simp
qed

text \<open>In the test environment: listing 7 is not found, and the fetch of listing 9 is refused.\<close>

theorem C6_not_found_distinguishable_witness:
  "fst (FetchPropertyFromAPI testEnv ''7'' emptyWorld)
     = Inl ''properties API returned status 404: not found''
 \<and> fst (FetchPropertyFromAPI testEnv ''9'' emptyWorld)
     = Inl ''error executing request: connection refused''
 \<and> fst (FetchPropertyFromAPI testEnv ''7'' emptyWorld)
     \<noteq> fst (FetchPropertyFromAPI testEnv ''9'' emptyWorld)"
proof -
  have h1: "''7'' \<noteq> ([] :: string)" by simp
  have h2: "propertiesDo testEnv (propertiesAPIURL testEnv @ ''/properties/'' @ ''7'')
      = Response 404 ''not found'' None"
    by (simp add: testEnv_def)
  have h3: "\<forall>b r. propertiesDo testEnv (propertiesAPIURL testEnv @ ''/properties/'' @ ''9'')
      \<noteq> Response 404 b r"
    by (simp add: testEnv_def)
  have o: "fst (FetchPropertyFromAPI testEnv ''9'' emptyWorld)
     = Inl ''error executing request: connection refused''"
    by code_simp
  show ?thesis
    using C6_not_found_distinguishable [OF h1 h2 h3, of emptyWorld emptyWorld] o by simp
qed

section \<open>Escaping of user text\<close>

lemma ReplaceAll_single:
  "ReplaceAll s [c] new = concat (map (\<lambda>x. if x = c then new else [x]) s)"
  by (induction s) auto

lemma ReplaceAll_append:
  "ReplaceAll (u @ v) [c] new = ReplaceAll u [c] new @ ReplaceAll v [c] new"
  by (simp add: ReplaceAll_single)

lemma ReplaceAll_Nil: "ReplaceAll [] [c] new = []"
  by simp

lemma escape_append: "escapeSolrQuery (u @ v) = escapeSolrQuery u @ escapeSolrQuery v"
  by (simp only: escapeSolrQuery_def Let_def ReplaceAll_append)

lemma escape_Nil: "escapeSolrQuery [] = []"
  by (simp add: escapeSolrQuery_def)

lemma ReplaceAll_other: "x \<noteq> c \<Longrightarrow> ReplaceAll [x] [c] new = [x]"
  by simp

lemma escape_char: "escapeSolrQuery [x] = escapeChar x"
proof (cases "x \<in> set escapedChars")
  case True
  then have "x = bslash \<or> x = CHR ''+'' \<or> x = CHR ''-'' \<or> x = CHR ''&'' \<or> x = CHR ''|''
    \<or> x = CHR ''!'' \<or> x = CHR ''('' \<or> x = CHR '')'' \<or> x = CHR ''{'' \<or> x = CHR ''}''
    \<or> x = CHR ''['' \<or> x = CHR '']'' \<or> x = CHR ''^'' \<or> x = dquote \<or> x = CHR ''~''
    \<or> x = CHR ''*'' \<or> x = CHR ''?'' \<or> x = CHR '':''"
    by (simp add: escapedChars_def)
  then show ?thesis
    by (elim disjE)
      (simp_all add: escapeSolrQuery_def escapeChar_def escapedChars_def bslash_def dquote_def)
next
  case False
  then have "x \<noteq> bslash" "x \<noteq> CHR ''+''" "x \<noteq> CHR ''-''" "x \<noteq> CHR ''&''" "x \<noteq> CHR ''|''"
    "x \<noteq> CHR ''!''" "x \<noteq> CHR ''(''" "x \<noteq> CHR '')''" "x \<noteq> CHR ''{''" "x \<noteq> CHR ''}''"
    "x \<noteq> CHR ''[''" "x \<noteq> CHR '']''" "x \<noteq> CHR ''^''" "x \<noteq> dquote" "x \<noteq> CHR ''~''"
    "x \<noteq> CHR ''*''" "x \<noteq> CHR ''?''" "x \<noteq> CHR '':''"
    by (simp_all add: escapedChars_def)
  then have "escapeSolrQuery [x] = [x]"
    by (simp add: escapeSolrQuery_def)
  with False show ?thesis by (simp add: escapeChar_def)
qed

text \<open>
  The chain of eighteen replacements escapes each character once: a character the code names
  gets one backslash in front, no backslash is escaped twice, and every other character is
  copied.
\<close>

theorem escape_chars: "escapeSolrQuery s = concat (map escapeChar s)"
proof (induction s)
  case Nil
  show ?case by (simp add: escape_Nil)
next
  case (Cons x s)
  have "escapeSolrQuery (x # s) = escapeSolrQuery ([x] @ s)" by simp
  also have "\<dots> = escapeChar x @ escapeSolrQuery s"
    by (simp only: escape_append escape_char)
  finally show ?case using Cons by simp
qed

text \<open>
  Claim C5 fails on the code for the slash, which Solr's query parser reserves (it opens a
  regular expression) and \<^verbatim>\<open>escapeSolrQuery\<close> does not name: the free text \<^verbatim>\<open>a/b\<close> reaches the
  query, and a city \<^verbatim>\<open>a/b\<close> the filter, as it was typed. The characters \<^verbatim>\<open>*\<close>, \<^verbatim>\<open>(\<close> and the
  double quote are escaped.
\<close>

theorem C5_slash_not_escaped:
  "escapeSolrQuery ''a/b'' = ''a/b''
 \<and> searchQuery (romeRequest\<lparr>Query := ''a/b''\<rparr>) = ''(title:*a/b* OR city:*a/b* OR country:*a/b*)''
 \<and> searchFilters testEnv (romeRequest\<lparr>City := ''a/b''\<rparr>) = [''city:'' @ [dquote] @ ''a/b'' @ [dquote]]
 \<and> escapeSolrQuery (''*('' @ [dquote]) = [bslash, CHR ''*'', bslash, CHR ''('', bslash, dquote]"
  by code_simp

end
